theory Spec2Isabelle
  imports Main "HOL-Library.Word"
begin

section \<open>Results, errors and machine integers\<close>

text \<open>
  Go's \<open>int\<close> on a 64-bit platform is a 64-bit two's complement integer: \<open>+\<close> and
  \<open>-\<close> wrap around, comparisons are signed (\<open><s\<close>, \<open>\<le>s\<close>).  \<open>uint8\<close> and
  \<open>uint32\<close> are unsigned words.  Strings are byte sequences.
\<close>

type_synonym go_int = "64 word"
type_synonym uint8 = "8 word"
type_synonym uint16 = "16 word"
type_synonym uint32 = "32 word"

datatype strconv_err = ErrSyntax | ErrRange

datatype errno = ENOENT | EEXIST

text \<open>
  The error values the program can return: \<open>*strconv.NumError\<close> (function, input, cause),
  \<open>fmt.Errorf\<close> without a wrapped error (the message), \<open>fmt.Errorf\<close> with \<open>%w\<close>
  (the prefix before the colon, and the wrapped error), \<open>*os.PathError\<close> (operation, path,
  cause), and the errors of the image codecs, whose text is theirs.
\<close>

datatype error =
    NumError string string strconv_err
  | Errorf string
  | Wrap string error
  | PathError string string errno
  | CodecError string

text \<open>
  A call returns a value, returns a non-nil error, or panics (an index out of range, an
  allocation of impossible size): a panic is not an error value, it unwinds the program.
\<close>

datatype 'a result = Ok 'a | Err error | Panic string

section \<open>Strings\<close>

definition isASCII :: "string \<Rightarrow> bool" where
  "isASCII s = (\<forall>c \<in> set s. (of_char c :: nat) < 128)"

definition lowerByte :: "char \<Rightarrow> char" where
  "lowerByte c =
     (let n = (of_char c :: nat) in if 65 \<le> n \<and> n \<le> 90 then char_of (n + 32) else c)"

text \<open>
  \<open>strings.ToLower\<close>: a string of ASCII bytes is lowered byte by byte (\<open>'A'..'Z'\<close> plus
  \<open>'a' - 'A'\<close>); a string with a byte \<open>\<ge> 0x80\<close> goes through
  \<open>strings.Map(unicode.ToLower, s)\<close>, whose Unicode tables are the library's and are
  taken as the parameter \<open>unicodeLower\<close>.
\<close>

definition ToLower :: "(string \<Rightarrow> string) \<Rightarrow> string \<Rightarrow> string" where
  "ToLower unicodeLower s = (if isASCII s then map lowerByte s else unicodeLower s)"

text \<open>\<open>strings.TrimPrefix(s, "#")\<close>: one leading \<open>#\<close> is removed, if there is one.\<close>

fun TrimPrefixHash :: "string \<Rightarrow> string" where
  "TrimPrefixHash (c # cs) = (if c = CHR ''#'' then cs else c # cs)"
| "TrimPrefixHash [] = []"

text \<open>
  \<open>strings.Split(s, ",")\<close>: the pieces between the commas, one more than there are
  commas; the empty string gives one empty piece.
\<close>

fun splitAcc :: "string \<Rightarrow> string \<Rightarrow> string list" where
  "splitAcc acc [] = [rev acc]"
| "splitAcc acc (c # cs) =
     (if c = CHR '','' then rev acc # splitAcc [] cs else splitAcc (c # acc) cs)"

definition Split :: "string \<Rightarrow> string list" where
  "Split s = splitAcc [] s"

section \<open>strconv\<close>

text \<open>
  The value of a digit as \<open>strconv.ParseUint\<close> reads it: \<open>'0'..'9'\<close>, \<open>'a'..'z'\<close> and
  \<open>'A'..'Z'\<close> (from 10); any other byte, the underscore included (the base is not 0), is a
  syntax error, as is a digit not below the base.
\<close>

definition digitVal :: "char \<Rightarrow> nat option" where
  "digitVal c =
     (let n = (of_char c :: nat) in
      if 48 \<le> n \<and> n \<le> 57 then Some (n - 48)
      else if 97 \<le> n \<and> n \<le> 122 then Some (n - 97 + 10)
      else if 65 \<le> n \<and> n \<le> 90 then Some (n - 65 + 10)
      else None)"

text \<open>
  The digit loop of \<open>ParseUint(s, base, 64)\<close>, left to right: a bad digit is
  \<open>ErrSyntax\<close>, a value beyond \<open>2^64 - 1\<close> is \<open>ErrRange\<close>, whichever comes first.
\<close>

fun parseDigits :: "nat \<Rightarrow> nat \<Rightarrow> string \<Rightarrow> strconv_err + nat" where
  "parseDigits base n [] = Inr n"
| "parseDigits base n (c # cs) =
     (case digitVal c of
        None \<Rightarrow> Inl ErrSyntax
      | Some d \<Rightarrow>
          if base \<le> d then Inl ErrSyntax
          else if 2 ^ 64 \<le> n * base + d then Inl ErrRange
          else parseDigits base (n * base + d) cs)"

text \<open>
  \<open>strconv.ParseInt(s, base, 64)\<close> for base 10 or 16: the empty string is a syntax error,
  one leading sign is taken, the digits (at least one) are read unsigned, and the value must
  fit 64 signed bits.
\<close>

definition ParseInt :: "string \<Rightarrow> nat \<Rightarrow> strconv_err + int" where
  "ParseInt s base =
     (case s of
        [] \<Rightarrow> Inl ErrSyntax
      | c # cs \<Rightarrow>
          (let neg = (c = CHR ''-'');
               ds = (if c = CHR ''+'' \<or> c = CHR ''-'' then cs else s)
           in if ds = [] then Inl ErrSyntax
              else (case parseDigits base 0 ds of
                      Inl e \<Rightarrow> Inl e
                    | Inr un \<Rightarrow>
                        if \<not> neg \<and> 2 ^ 63 \<le> un then Inl ErrRange
                        else if neg \<and> 2 ^ 63 < un then Inl ErrRange
                        else Inr (if neg then - int un else int un))))"

text \<open>
  \<open>strconv.Atoi\<close>: \<open>ParseInt(s, 10, 0)\<close> (its fast path for short strings computes the
  same), the error's function name set to \<open>Atoi\<close>.
\<close>

definition Atoi :: "string \<Rightarrow> error + go_int" where
  "Atoi s =
     (case ParseInt s 10 of
        Inl e \<Rightarrow> Inl (NumError ''Atoi'' s e)
      | Inr i \<Rightarrow> Inr (word_of_int i))"

section \<open>The padding parser\<close>

record Padding =
  top :: go_int
  right :: go_int
  bottom :: go_int
  left :: go_int

definition mkPadding :: "go_int \<Rightarrow> go_int \<Rightarrow> go_int \<Rightarrow> go_int \<Rightarrow> Padding" where
  "mkPadding t r b l = \<lparr>top = t, right = r, bottom = b, left = l\<rparr>"

text \<open>
  \<open>parsePadding\<close>: the number of pieces is taken as 0 for the empty string; 0, 1, 2 and 4
  pieces are read, any other number is the error \<open>invalid padding\<close>.  The pieces are
  converted in order and the first failure is returned, wrapped with the edge's name.
\<close>

definition parsePadding :: "string \<Rightarrow> error + Padding" where
  "parsePadding paddingStr =
     (let paddings = Split paddingStr;
          pdArgs = (if paddingStr = [] then 0 else length paddings)
      in if pdArgs = 0 then Inr (mkPadding 0 0 0 0)
         else if pdArgs = 1 then
           (case Atoi (paddings ! 0) of
              Inl err \<Rightarrow> Inl (Wrap ''parse padding'' err)
            | Inr padding \<Rightarrow> Inr (mkPadding padding padding padding padding))
         else if pdArgs = 2 then
           (case Atoi (paddings ! 0) of
              Inl err \<Rightarrow> Inl (Wrap ''parse vertical padding'' err)
            | Inr ypadding \<Rightarrow>
                (case Atoi (paddings ! 1) of
                   Inl err \<Rightarrow> Inl (Wrap ''parse horizontal padding'' err)
                 | Inr xpadding \<Rightarrow> Inr (mkPadding ypadding xpadding ypadding xpadding)))
         else if pdArgs = 4 then
           (case Atoi (paddings ! 0) of
              Inl err \<Rightarrow> Inl (Wrap ''parse top padding'' err)
            | Inr tpadding \<Rightarrow>
                (case Atoi (paddings ! 1) of
                   Inl err \<Rightarrow> Inl (Wrap ''parse right padding'' err)
                 | Inr rpadding \<Rightarrow>
                     (case Atoi (paddings ! 2) of
                        Inl err \<Rightarrow> Inl (Wrap ''parse bottom padding'' err)
                      | Inr bpadding \<Rightarrow>
                          (case Atoi (paddings ! 3) of
                             Inl err \<Rightarrow> Inl (Wrap ''parse left padding'' err)
                           | Inr lpadding \<Rightarrow>
                               Inr (mkPadding tpadding rpadding bpadding lpadding)))))
         else Inl (Errorf ''invalid padding''))"

section \<open>Colors\<close>

text \<open>
  The \<open>color.Color\<close> values the program builds: \<open>color.Black\<close> and \<open>color.White\<close> are
  \<open>Gray16{0}\<close> and \<open>Gray16{0xffff}\<close>, \<open>color.Transparent\<close> is \<open>Alpha16{0}\<close>, and
  \<open>color.RGBA{R, G, B, A}\<close> has four 8-bit fields; a field left out of a composite
  literal is zero.
\<close>

datatype Color = Gray16 uint16 | Alpha16 uint16 | RGBA uint8 uint8 uint8 uint8

definition Black :: Color where "Black = Gray16 0"
definition White :: Color where "White = Gray16 0xffff"
definition Transparent :: Color where "Transparent = Alpha16 0"

text \<open>
  The method \<open>RGBA()\<close> of each: four \<open>uint32\<close> in \<open>[0, 0xffff]\<close>, red, green, blue,
  alpha.  \<open>Gray16\<close> is opaque, \<open>Alpha16\<close> repeats its alpha in every channel, and
  \<open>color.RGBA\<close> widens each field \<open>v\<close> to \<open>v | v << 8\<close>.
\<close>

type_synonym rgba16 = "uint32 \<times> uint32 \<times> uint32 \<times> uint32"

definition widen8 :: "uint8 \<Rightarrow> uint32" where
  "widen8 v = or (ucast v) (push_bit 8 (ucast v))"

fun colorRGBA :: "Color \<Rightarrow> rgba16" where
  "colorRGBA (Gray16 y) = (ucast y, ucast y, ucast y, 0xffff)"
| "colorRGBA (Alpha16 a) = (ucast a, ucast a, ucast a, ucast a)"
| "colorRGBA (RGBA r g b a) = (widen8 r, widen8 g, widen8 b, widen8 a)"

definition alphaOf :: "Color \<Rightarrow> uint32" where
  "alphaOf c = (case colorRGBA c of (r, g, b, a) \<Rightarrow> a)"

text \<open>A color is fully opaque when its alpha is the maximum, \<open>0xffff\<close>.\<close>

definition opaque :: "Color \<Rightarrow> bool" where
  "opaque c = (alphaOf c = 0xffff)"

section \<open>The color parser\<close>

text \<open>The class \<open>\w\<close> of Go's regexp: ASCII letters, digits and the underscore.\<close>

definition isWord :: "char \<Rightarrow> bool" where
  "isWord c =
     (let n = (of_char c :: nat) in
      (48 \<le> n \<and> n \<le> 57) \<or> (65 \<le> n \<and> n \<le> 90) \<or> (97 \<le> n \<and> n \<le> 122) \<or> n = 95)"

text \<open>
  \<open>hexReg.FindAllString(s, n)\<close> for \<open>\w{2}\<close>: the leftmost matches that do not overlap,
  at most \<open>n\<close> of them.  A match is two word bytes in a row; the scan goes on after it, or
  one byte further where there is none.
\<close>

fun FindAllString :: "string \<Rightarrow> nat \<Rightarrow> string list" where
  "FindAllString s 0 = []"
| "FindAllString [] (Suc n) = []"
| "FindAllString [a] (Suc n) = []"
| "FindAllString (a # b # cs) (Suc n) =
     (if isWord a \<and> isWord b then [a, b] # FindAllString cs n
      else FindAllString (b # cs) (Suc n))"

text \<open>Indexing a slice panics out of range.\<close>

definition index :: "'a list \<Rightarrow> nat \<Rightarrow> 'a result" where
  "index xs i = (if i < length xs then Ok (xs ! i) else Panic ''index out of range'')"

definition parseHexByte :: "string \<Rightarrow> error + uint8" where
  "parseHexByte tok =
     (case ParseInt tok 16 of
        Inl e \<Rightarrow> Inl (NumError ''ParseInt'' tok e)
      | Inr i \<Rightarrow> Inr (word_of_int i))"

text \<open>
  \<open>parseHexColor\<close>: up to three matches are taken from the string without its leading
  \<open>#\<close>; \<open>colorVals[0]\<close>, \<open>colorVals[1]\<close> and \<open>colorVals[2]\<close> are indexed and parsed in
  turn, with no check of how many there are; the result is \<open>color.RGBA{R: r, G: g, B: b}\<close>,
  whose field \<open>A\<close> is not set.
\<close>

definition parseHexColor :: "string \<Rightarrow> Color result" where
  "parseHexColor hexStr =
     (let colorVals = FindAllString (TrimPrefixHash hexStr) 3 in
      case index colorVals 0 of Panic m \<Rightarrow> Panic m | Err e \<Rightarrow> Err e
      | Ok v0 \<Rightarrow>
     (case parseHexByte v0 of Inl err \<Rightarrow> Err err
      | Inr r \<Rightarrow>
     (case index colorVals 1 of Panic m \<Rightarrow> Panic m | Err e \<Rightarrow> Err e
      | Ok v1 \<Rightarrow>
     (case parseHexByte v1 of Inl err \<Rightarrow> Err err
      | Inr g \<Rightarrow>
     (case index colorVals 2 of Panic m \<Rightarrow> Panic m | Err e \<Rightarrow> Err e
      | Ok v2 \<Rightarrow>
     (case parseHexByte v2 of Inl err \<Rightarrow> Err err
      | Inr b \<Rightarrow> Ok (RGBA r g b 0)))))))"

definition parseBackgroundColor :: "(string \<Rightarrow> string) \<Rightarrow> string \<Rightarrow> Color result" where
  "parseBackgroundColor unicodeLower colorStr =
     (let l = ToLower unicodeLower colorStr in
      if l = ''black'' then Ok Black
      else if l = ''white'' then Ok White
      else if l = ''red'' then Ok (RGBA 255 0 0 0)
      else if l = ''green'' then Ok (RGBA 0 255 0 0)
      else if l = ''blue'' then Ok (RGBA 0 0 255 0)
      else parseHexColor colorStr)"

section \<open>Geometry\<close>

text \<open>
  \<open>image.Point\<close> and \<open>image.Rectangle\<close>, with the methods the program and
  \<open>draw.Draw\<close> use.  A rectangle holds the points with
  \<open>Min.X \<le> x < Max.X\<close> and \<open>Min.Y \<le> y < Max.Y\<close>.
\<close>

record Point =
  pX :: go_int
  pY :: go_int

record Rectangle =
  rMin :: Point
  rMax :: Point

definition Pt :: "go_int \<Rightarrow> go_int \<Rightarrow> Point" where
  "Pt x y = \<lparr>pX = x, pY = y\<rparr>"

definition ptAdd :: "Point \<Rightarrow> Point \<Rightarrow> Point" where
  "ptAdd p q = Pt (pX p + pX q) (pY p + pY q)"

definition ptSub :: "Point \<Rightarrow> Point \<Rightarrow> Point" where
  "ptSub p q = Pt (pX p - pX q) (pY p - pY q)"

text \<open>\<open>image.Rect\<close> swaps the coordinates of a pair given in the wrong order.\<close>

definition Rect :: "go_int \<Rightarrow> go_int \<Rightarrow> go_int \<Rightarrow> go_int \<Rightarrow> Rectangle" where
  "Rect x0 y0 x1 y1 =
     \<lparr>rMin = Pt (if x1 <s x0 then x1 else x0) (if y1 <s y0 then y1 else y0),
      rMax = Pt (if x1 <s x0 then x0 else x1) (if y1 <s y0 then y0 else y1)\<rparr>"

definition ZR :: Rectangle where
  "ZR = \<lparr>rMin = Pt 0 0, rMax = Pt 0 0\<rparr>"

definition Dx :: "Rectangle \<Rightarrow> go_int" where
  "Dx r = pX (rMax r) - pX (rMin r)"

definition Dy :: "Rectangle \<Rightarrow> go_int" where
  "Dy r = pY (rMax r) - pY (rMin r)"

definition rectAdd :: "Rectangle \<Rightarrow> Point \<Rightarrow> Rectangle" where
  "rectAdd r p = \<lparr>rMin = ptAdd (rMin r) p, rMax = ptAdd (rMax r) p\<rparr>"

definition Empty :: "Rectangle \<Rightarrow> bool" where
  "Empty r = (pX (rMax r) \<le>s pX (rMin r) \<or> pY (rMax r) \<le>s pY (rMin r))"

definition In :: "Point \<Rightarrow> Rectangle \<Rightarrow> bool" where
  "In p r =
     (pX (rMin r) \<le>s pX p \<and> pX p <s pX (rMax r) \<and>
      pY (rMin r) \<le>s pY p \<and> pY p <s pY (rMax r))"

definition Intersect :: "Rectangle \<Rightarrow> Rectangle \<Rightarrow> Rectangle" where
  "Intersect r s =
     (let r' = \<lparr>rMin = Pt (if pX (rMin r) <s pX (rMin s) then pX (rMin s) else pX (rMin r))
                            (if pY (rMin r) <s pY (rMin s) then pY (rMin s) else pY (rMin r)),
                 rMax = Pt (if pX (rMax s) <s pX (rMax r) then pX (rMax s) else pX (rMax r))
                            (if pY (rMax s) <s pY (rMax r) then pY (rMax s) else pY (rMax r))\<rparr>
      in if Empty r' then ZR else r')"

section \<open>Images and drawing\<close>

text \<open>
  A decoded source image is read through the \<open>image.Image\<close> interface: its bounds, and
  at each point the color's \<open>RGBA()\<close>, four alpha-premultiplied 16-bit channels held in
  \<open>uint32\<close>.  The destination is an \<open>*image.RGBA\<close>: a rectangle and four bytes for each
  point (the byte slice and its stride are read here as a function of the point).
\<close>

type_synonym rgba8 = "uint8 \<times> uint8 \<times> uint8 \<times> uint8"

record Image =
  Bounds :: Rectangle
  At :: "Point \<Rightarrow> rgba16"

record RGBAImage =
  imgRect :: Rectangle
  Pix :: "Point \<Rightarrow> rgba8"

text \<open>
  \<open>image.NewRGBA\<close> panics when \<open>4 * Dx * Dy\<close> is negative or does not fit an
  \<open>int\<close> (\<open>mul3NonNeg\<close> multiplies in two steps and gives \<open>-1\<close> then); otherwise every
  byte of the new image is zero.  Running out of memory is not modelled.
\<close>

definition mul3NonNeg :: "go_int \<Rightarrow> go_int \<Rightarrow> go_int \<Rightarrow> go_int" where
  "mul3NonNeg x y z =
     (if x <s 0 \<or> y <s 0 \<or> z <s 0 then - 1
      else let xy = unat x * unat y in
        if 2 ^ 64 \<le> xy then - 1
        else let xyz = xy * unat z in
          if 2 ^ 64 \<le> xyz then - 1
          else if (word_of_nat xyz :: go_int) <s 0 then - 1
          else word_of_nat xyz)"

definition NewRGBA :: "Rectangle \<Rightarrow> RGBAImage result" where
  "NewRGBA r =
     (if mul3NonNeg 4 (Dx r) (Dy r) <s 0
      then Panic ''image: NewRGBA Rectangle has huge or negative dimensions''
      else Ok \<lparr>imgRect = r, Pix = (\<lambda>p. (0, 0, 0, 0))\<rparr>)"

text \<open>
  What \<open>draw.Draw\<close> reads from: \<open>image.NewUniform(c)\<close> or a decoded image.  An
  \<open>image.Uniform\<close> has one color at every point, and its \<open>Bounds\<close> method returns
  \<open>Rectangle{Point{-1e9, -1e9}, Point{1e9, 1e9}}\<close>: large, but not the whole plane, and
  \<open>draw.Draw\<close> clips to it as to any other source.
\<close>

datatype Source = Uniform Color | Decoded Image

definition uniformBounds :: Rectangle where
  "uniformBounds =
     \<lparr>rMin = Pt (- 1000000000) (- 1000000000), rMax = Pt 1000000000 1000000000\<rparr>"

fun sourceBounds :: "Source \<Rightarrow> Rectangle" where
  "sourceBounds (Uniform c) = uniformBounds"
| "sourceBounds (Decoded img) = Bounds img"

fun sourceAt :: "Source \<Rightarrow> Point \<Rightarrow> rgba16" where
  "sourceAt (Uniform c) p = colorRGBA c"
| "sourceAt (Decoded img) p = At img p"

datatype Op = Over | Src

text \<open>
  The clipping of \<open>draw.Draw\<close>: the rectangle is cut to the destination's bounds and to
  the source's bounds moved to it, and the source point moves with its corner.
\<close>

definition clip :: "RGBAImage \<Rightarrow> Rectangle \<Rightarrow> Source \<Rightarrow> Point \<Rightarrow> Rectangle \<times> Point" where
  "clip dst r src sp =
     (let orig = rMin r;
          r1 = Intersect r (imgRect dst);
          r2 = Intersect r1 (rectAdd (sourceBounds src) (ptSub orig sp));
          dx = pX (rMin r2) - pX orig;
          dy = pY (rMin r2) - pY orig
      in (r2, Pt (pX sp + dx) (pY sp + dy)))"

text \<open>
  One pixel of the draw, with no mask (\<open>m = 0xffff\<close>).  \<open>Src\<close> stores the high byte of
  each source channel.  \<open>Over\<close> is the generic path of \<open>draw.Draw\<close> in \<open>uint32\<close>
  arithmetic: with \<open>a = (m - sa) * 0x101\<close>, a channel becomes
  \<open>uint8((d * a + s * m) / m >> 8)\<close>; the paths specialised to an image type compute
  the same byte for a color in range.
\<close>

definition src8 :: "uint32 \<Rightarrow> uint8" where
  "src8 s = ucast (drop_bit 8 s)"

definition over8 :: "uint32 \<Rightarrow> uint8 \<Rightarrow> uint32 \<Rightarrow> uint8" where
  "over8 a d s = ucast (drop_bit 8 ((ucast d * a + s * 0xffff) div 0xffff))"

fun blend :: "Op \<Rightarrow> rgba8 \<Rightarrow> rgba16 \<Rightarrow> rgba8" where
  "blend Src (dr, dg, db, da) (sr, sg, sb, sa) = (src8 sr, src8 sg, src8 sb, src8 sa)"
| "blend Over (dr, dg, db, da) (sr, sg, sb, sa) =
     (let a = (0xffff - sa) * 0x101
      in (over8 a dr sr, over8 a dg sg, over8 a db sb, over8 a da sa))"

text \<open>
  \<open>draw.Draw(dst, r, src, sp, op)\<close>: nothing is drawn when the clipped rectangle is empty;
  otherwise each point of it takes the source's color at the matching point.
\<close>

definition Draw :: "RGBAImage \<Rightarrow> Rectangle \<Rightarrow> Source \<Rightarrow> Point \<Rightarrow> Op \<Rightarrow> RGBAImage" where
  "Draw dst r src sp op =
     (case clip dst r src sp of
        (r', sp') \<Rightarrow>
          if Empty r' then dst
          else dst\<lparr>Pix := (\<lambda>p. if In p r'
                                then blend op (Pix dst p)
                                       (sourceAt src (ptAdd sp' (ptSub p (rMin r'))))
                                else Pix dst p)\<rparr>)"

section \<open>The compositor\<close>

record Config =
  bgColor :: Color
  padding :: Padding

text \<open>
  The canvas of both conversions: \<open>newRect\<close> is
  \<open>image.Rect(0, 0, bounds.Dx() + right + left, bounds.Dy() + top + bottom)\<close> and the
  offset is \<open>image.Pt(left, top)\<close>.
\<close>

definition newRect :: "Padding \<Rightarrow> Image \<Rightarrow> Rectangle" where
  "newRect pad srcImg =
     (let bounds = Bounds srcImg;
          newWidth = Dx bounds + right pad + left pad;
          newHeight = Dy bounds + top pad + bottom pad
      in Rect 0 0 newWidth newHeight)"

definition offset :: "Padding \<Rightarrow> Point" where
  "offset pad = Pt (left pad) (top pad)"

text \<open>
  The first draw: the new image is filled from the uniform image of the background color
  with \<open>draw.Src\<close>.  The draw aligns \<open>newRect.Min\<close> in the canvas with
  \<open>bounds.Min\<close> in the uniform image, so the uniform image covers \<open>fillWindow\<close>: its
  bounds moved by the difference of the two points.
\<close>

definition fillWindow :: "Padding \<Rightarrow> Image \<Rightarrow> Rectangle" where
  "fillWindow pad srcImg =
     rectAdd uniformBounds (ptSub (rMin (newRect pad srcImg)) (rMin (Bounds srcImg)))"

definition fillCanvas :: "Color \<Rightarrow> Padding \<Rightarrow> Image \<Rightarrow> RGBAImage result" where
  "fillCanvas bgc pad srcImg =
     (case NewRGBA (newRect pad srcImg) of
        Panic m \<Rightarrow> Panic m
      | Err e \<Rightarrow> Err e
      | Ok destImg \<Rightarrow>
          Ok (Draw destImg (newRect pad srcImg) (Uniform bgc) (rMin (Bounds srcImg)) Src))"

text \<open>
  The second draw: the source goes to \<open>bounds.Add(offset)\<close> with \<open>draw.Over\<close>.  The two
  conversions run these same statements, one with the configured color, the other with
  \<open>color.Transparent\<close>.
\<close>

definition composite :: "Color \<Rightarrow> Padding \<Rightarrow> Image \<Rightarrow> RGBAImage result" where
  "composite bgc pad srcImg =
     (case fillCanvas bgc pad srcImg of
        Panic m \<Rightarrow> Panic m
      | Err e \<Rightarrow> Err e
      | Ok destImg \<Rightarrow>
          Ok (Draw destImg (rectAdd (Bounds srcImg) (offset pad)) (Decoded srcImg)
                (rMin (Bounds srcImg)) Over))"

text \<open>The bytes a color leaves in the canvas when it is stored with \<open>draw.Src\<close>.\<close>

definition color8 :: "Color \<Rightarrow> rgba8" where
  "color8 c = (case colorRGBA c of (r, g, b, a) \<Rightarrow> (src8 r, src8 g, src8 b, src8 a))"

definition alpha8 :: "rgba8 \<Rightarrow> uint8" where
  "alpha8 px = (case px of (r, g, b, a) \<Rightarrow> a)"

section \<open>Format detection\<close>

text \<open>
  \<open>filepath.Ext\<close> (with \<open>/\<close> as the separator): the suffix from the last dot of the
  last path element, empty when that element has no dot.  The scan runs from the end of
  the path and stops at a separator.
\<close>

fun extScan :: "string \<Rightarrow> string \<Rightarrow> string" where
  "extScan [] acc = []"
| "extScan (c # cs) acc =
     (if c = CHR ''/'' then []
      else if c = CHR ''.'' then c # acc
      else extScan cs (c # acc))"

definition Ext :: "string \<Rightarrow> string" where
  "Ext path = extScan (rev path) []"

definition detectFormat :: "(string \<Rightarrow> string) \<Rightarrow> string \<Rightarrow> string" where
  "detectFormat unicodeLower filename =
     (let ext = ToLower unicodeLower (Ext filename) in
      if ext = ''.png'' then ''png''
      else if ext = ''.jpeg'' \<or> ext = ''.jpg'' then ''jpeg''
      else ''unknown'')"

section \<open>Files\<close>

text \<open>
  The state outside the program: the files by path with their bytes, the handles that are
  open (each named by the path it was opened on), and the log of the file operations made,
  failed ones included.
\<close>

datatype io_event =
    EvOpen string
  | EvOpenExcl string
  | EvRead string
  | EvWrite string
  | EvClose string

record World =
  files :: "string \<rightharpoonup> string"
  openHandles :: "string list"
  ioLog :: "io_event list"

text \<open>\<open>os.Open\<close>: a missing file is the error; otherwise a handle is open on it.\<close>

definition os_Open :: "string \<Rightarrow> World \<Rightarrow> (error + string) \<times> World" where
  "os_Open name w =
     (case files w name of
        None \<Rightarrow> (Inl (PathError ''open'' name ENOENT), w\<lparr>ioLog := ioLog w @ [EvOpen name]\<rparr>)
      | Some content \<Rightarrow>
          (Inr name, w\<lparr>openHandles := name # openHandles w, ioLog := ioLog w @ [EvOpen name]\<rparr>))"

text \<open>
  \<open>os.OpenFile(name, O_CREATE|O_WRONLY|O_EXCL, 0644)\<close>: a path that exists is the error
  and the file stays as it is; otherwise an empty file is created and a handle is open on
  it.
\<close>

definition os_OpenFile_excl :: "string \<Rightarrow> World \<Rightarrow> (error + string) \<times> World" where
  "os_OpenFile_excl name w =
     (case files w name of
        Some content \<Rightarrow>
          (Inl (PathError ''open'' name EEXIST), w\<lparr>ioLog := ioLog w @ [EvOpenExcl name]\<rparr>)
      | None \<Rightarrow>
          (Inr name, w\<lparr>files := (files w)(name \<mapsto> []),
                        openHandles := name # openHandles w,
                        ioLog := ioLog w @ [EvOpenExcl name]\<rparr>))"

definition file_Close :: "string \<Rightarrow> World \<Rightarrow> World" where
  "file_Close h w = w\<lparr>openHandles := remove1 h (openHandles w), ioLog := ioLog w @ [EvClose h]\<rparr>"

definition file_Read :: "string \<Rightarrow> World \<Rightarrow> string \<times> World" where
  "file_Read h w =
     ((case files w h of None \<Rightarrow> [] | Some content \<Rightarrow> content),
      w\<lparr>ioLog := ioLog w @ [EvRead h]\<rparr>)"

definition file_Write :: "string \<Rightarrow> string \<Rightarrow> World \<Rightarrow> World" where
  "file_Write h bytes w = w\<lparr>files := (files w)(h \<mapsto> bytes), ioLog := ioLog w @ [EvWrite h]\<rparr>"

text \<open>
  The library functions the program is linked with and does not define: the Unicode
  lowering of \<open>strings.ToLower\<close>, the decoders (from the bytes read: an image or an
  error), and the encoders (from the image, and the quality for JPEG: the bytes written,
  and the error if the encoding failed).
\<close>

record Lib =
  unicodeLower :: "string \<Rightarrow> string"
  png_Decode :: "string \<Rightarrow> error + Image"
  jpeg_Decode :: "string \<Rightarrow> error + Image"
  jpeg_Encode :: "RGBAImage \<Rightarrow> nat \<Rightarrow> string \<times> error option"
  png_Encode :: "RGBAImage \<Rightarrow> string \<times> error option"

definition errResult :: "error option \<Rightarrow> unit result" where
  "errResult eo = (case eo of None \<Rightarrow> Ok () | Some e \<Rightarrow> Err e)"

section \<open>The conversions\<close>

text \<open>
  \<open>convertPNGToJPEG\<close>: the input is opened and decoded, and closed only after a
  successful decode; the canvas is built; the output is opened for exclusive creation; the
  canvas is encoded with \<open>Quality: 50\<close>.  The output handle is not closed.
\<close>

definition convertPNGToJPEG ::
  "Lib \<Rightarrow> string \<Rightarrow> string \<Rightarrow> Config \<Rightarrow> World \<Rightarrow> unit result \<times> World" where
  "convertPNGToJPEG lib inputFile outputFile config w =
     (case os_Open inputFile w of
        (Inl err, w1) \<Rightarrow> (Err err, w1)
      | (Inr f, w1) \<Rightarrow>
     (case file_Read f w1 of (content, w2) \<Rightarrow>
     (case png_Decode lib content of
        Inl err \<Rightarrow> (Err err, w2)
      | Inr srcImg \<Rightarrow>
     (let w3 = file_Close f w2 in
      case composite (bgColor config) (padding config) srcImg of
        Panic m \<Rightarrow> (Panic m, w3)
      | Err e \<Rightarrow> (Err e, w3)
      | Ok destImg \<Rightarrow>
     (case os_OpenFile_excl outputFile w3 of
        (Inl err, w4) \<Rightarrow> (Err err, w4)
      | (Inr outFile, w4) \<Rightarrow>
     (case jpeg_Encode lib destImg 50 of
        (bytes, eo) \<Rightarrow> (errResult eo, file_Write outFile bytes w4)))))))"

text \<open>
  \<open>convertJPEGToPNG\<close>: the same, but the output is opened before the canvas is built,
  the canvas is filled with \<open>color.Transparent\<close> whatever the configuration says, and the
  encoder is PNG's.
\<close>

definition convertJPEGToPNG ::
  "Lib \<Rightarrow> string \<Rightarrow> string \<Rightarrow> Config \<Rightarrow> World \<Rightarrow> unit result \<times> World" where
  "convertJPEGToPNG lib inputFile outputFile config w =
     (case os_Open inputFile w of
        (Inl err, w1) \<Rightarrow> (Err err, w1)
      | (Inr f, w1) \<Rightarrow>
     (case file_Read f w1 of (content, w2) \<Rightarrow>
     (case jpeg_Decode lib content of
        Inl err \<Rightarrow> (Err err, w2)
      | Inr srcImg \<Rightarrow>
     (let w3 = file_Close f w2 in
      case os_OpenFile_excl outputFile w3 of
        (Inl err, w4) \<Rightarrow> (Err err, w4)
      | (Inr outFile, w4) \<Rightarrow>
     (case composite Transparent (padding config) srcImg of
        Panic m \<Rightarrow> (Panic m, w4)
      | Err e \<Rightarrow> (Err e, w4)
      | Ok destImg \<Rightarrow>
     (case png_Encode lib destImg of
        (bytes, eo) \<Rightarrow> (errResult eo, file_Write outFile bytes w4)))))))"

definition convertImage ::
  "Lib \<Rightarrow> string \<Rightarrow> string \<Rightarrow> Config \<Rightarrow> World \<Rightarrow> unit result \<times> World" where
  "convertImage lib inputFile outputFile config w =
     (let inputFormat = detectFormat (unicodeLower lib) inputFile;
          outputFormat = detectFormat (unicodeLower lib) outputFile
      in if inputFormat = ''png'' \<and> outputFormat = ''jpeg''
           then convertPNGToJPEG lib inputFile outputFile config w
         else if inputFormat = ''jpeg'' \<and> outputFormat = ''png''
           then convertJPEGToPNG lib inputFile outputFile config w
         else (Err (Errorf (''unsupported conversion: '' @ inputFormat @ '' to '' @ outputFormat)),
               w))"

section \<open>Sample inputs\<close>

text \<open>
  The canvas when the allocation succeeds, and small concrete inputs on which the
  theorems below are run: a 2 by 2 opaque red image at the origin, codecs that accept one
  byte string each, and a directory of five files.
\<close>

definition canvasOf :: "Color \<Rightarrow> Padding \<Rightarrow> Image \<Rightarrow> RGBAImage" where
  "canvasOf bgc pad srcImg =
     Draw \<lparr>imgRect = newRect pad srcImg, Pix = (\<lambda>p. (0, 0, 0, 0))\<rparr>
       (newRect pad srcImg) (Uniform bgc) (rMin (Bounds srcImg)) Src"

definition redSquare :: Image where
  "redSquare = \<lparr>Bounds = Rect 0 0 2 2, At = (\<lambda>p. (0xffff, 0, 0, 0xffff))\<rparr>"

definition sampleLib :: Lib where
  "sampleLib =
     \<lparr>unicodeLower = (\<lambda>s. s),
      png_Decode = (\<lambda>bytes. if bytes = ''PNG'' then Inr redSquare
                             else Inl (CodecError ''png: invalid format: not a PNG file'')),
      jpeg_Decode = (\<lambda>bytes. if bytes = ''JPG'' then Inr redSquare
                              else Inl (CodecError ''invalid JPEG format: missing SOI marker'')),
      jpeg_Encode = (\<lambda>img q. (''jpeg bytes'', None)),
      png_Encode = (\<lambda>img. (''png bytes'', None))\<rparr>"

definition sampleWorld :: World where
  "sampleWorld =
     \<lparr>files = [''in.png'' \<mapsto> ''PNG'', ''in.jpg'' \<mapsto> ''JPG'', ''bad.png'' \<mapsto> ''garbage'',
               ''old.jpg'' \<mapsto> ''old'', ''old.png'' \<mapsto> ''old''],
      openHandles = [],
      ioLog = []\<rparr>"

definition sampleConfig :: Config where
  "sampleConfig = \<lparr>bgColor = White, padding = mkPadding 1 1 1 1\<rparr>"

text \<open>
  The state after the input was opened, read and closed, and the state after the output
  was created and written: the shapes the conversions' results are stated with.
\<close>

definition afterDecode :: "string \<Rightarrow> World \<Rightarrow> World" where
  "afterDecode inputFile w =
     w\<lparr>ioLog := ioLog w @ [EvOpen inputFile, EvRead inputFile, EvClose inputFile]\<rparr>"

definition afterCreate :: "string \<Rightarrow> string \<Rightarrow> string \<Rightarrow> World \<Rightarrow> World" where
  "afterCreate inputFile outputFile bytes w =
     w\<lparr>files := (files w)(outputFile \<mapsto> bytes),
       openHandles := outputFile # openHandles w,
       ioLog := ioLog w @ [EvOpen inputFile, EvRead inputFile, EvClose inputFile,
                          EvOpenExcl outputFile]\<rparr>"

section \<open>Rectangles: membership and intersection\<close>

lemma Empty_not_In: "Empty r \<Longrightarrow> \<not> In p r"
  unfolding Empty_def In_def word_sle_eq word_sless_alt by linarith

lemma In_ZR [simp]: "\<not> In p ZR"
  by (simp add: In_def ZR_def Pt_def word_sle_eq word_sless_alt)

lemma smax_le: "(if a <s b then b else a) \<le>s x \<longleftrightarrow> a \<le>s x \<and> b \<le>s x"
  unfolding word_sle_eq word_sless_alt by (cases "sint a < sint b") auto

lemma smin_less: "x <s (if b <s a then b else a) \<longleftrightarrow> x <s a \<and> x <s b"
  unfolding word_sle_eq word_sless_alt by (cases "sint b < sint a") auto

text \<open>A point is in the intersection exactly when it is in both rectangles.\<close>

lemma In_Intersect: "In p (Intersect r s) \<longleftrightarrow> In p r \<and> In p s"
proof -
  define r' where
    "r' = \<lparr>rMin = Pt (if pX (rMin r) <s pX (rMin s) then pX (rMin s) else pX (rMin r))
                     (if pY (rMin r) <s pY (rMin s) then pY (rMin s) else pY (rMin r)),
           rMax = Pt (if pX (rMax s) <s pX (rMax r) then pX (rMax s) else pX (rMax r))
                     (if pY (rMax s) <s pY (rMax r) then pY (rMax s) else pY (rMax r))\<rparr>"
  have a: "In p r' \<longleftrightarrow> In p r \<and> In p s"
    unfolding r'_def In_def by (simp add: Pt_def smax_le smin_less) blast
  have b: "Intersect r s = (if Empty r' then ZR else r')"
    by (simp add: Intersect_def r'_def Let_def)
  show ?thesis
    using a Empty_not_In [of r' p] by (simp add: b)
qed

section \<open>What a draw leaves at each point\<close>

lemma Draw_imgRect [simp]: "imgRect (Draw dst r src sp op) = imgRect dst"
  by (simp add: Draw_def split: prod.splits)

lemma blend_Src: "blend Src d (colorRGBA c) = color8 c"
  by (cases d; cases "colorRGBA c") (simp add: color8_def)

lemma Draw_Uniform_Pix:
  "Pix (Draw dst r (Uniform c) sp Src) p =
     (if In p r \<and> In p (imgRect dst) \<and> In p (rectAdd uniformBounds (ptSub (rMin r) sp))
      then color8 c else Pix dst p)"
proof -
  let ?r1 = "Intersect (Intersect r (imgRect dst)) (rectAdd uniformBounds (ptSub (rMin r) sp))"
  obtain sp' where c: "clip dst r (Uniform c) sp = (?r1, sp')"
    by (simp add: clip_def Let_def)
  have i: "In p ?r1 \<longleftrightarrow>
      In p r \<and> In p (imgRect dst) \<and> In p (rectAdd uniformBounds (ptSub (rMin r) sp))"
    by (simp add: In_Intersect)
  show ?thesis
  proof (cases "In p ?r1")
    case True
    then have "\<not> Empty ?r1" using Empty_not_In by blast
    with True i show ?thesis
      unfolding Draw_def c by (simp add: blend_Src)
  next
    case False
    with i show ?thesis
      unfolding Draw_def c by auto
  qed
qed

lemma ptAdd_ptSub_shift:
  "ptAdd (Pt (pX sp + (pX m - pX (ptAdd sp off))) (pY sp + (pY m - pY (ptAdd sp off)))) (ptSub p m)
     = ptSub p off"
  by (simp add: ptAdd_def ptSub_def Pt_def)

lemma rectAdd_ptSub_self:
  "rectAdd b (ptSub (ptAdd (rMin b) off) (rMin b)) = rectAdd b off"
  by (simp add: rectAdd_def ptAdd_def ptSub_def Pt_def)

lemma Draw_Decoded_Pix:
  "Pix (Draw dst (rectAdd (Bounds src) off) (Decoded src) (rMin (Bounds src)) Over) p =
     (if In p (rectAdd (Bounds src) off) \<and> In p (imgRect dst)
      then blend Over (Pix dst p) (At src (ptSub p off))
      else Pix dst p)"
proof -
  let ?r = "rectAdd (Bounds src) off"
  have orig: "rMin ?r = ptAdd (rMin (Bounds src)) off"
    by (simp add: rectAdd_def)
  let ?r2 = "Intersect (Intersect ?r (imgRect dst)) ?r"
  have c: "clip dst ?r (Decoded src) (rMin (Bounds src)) =
      (?r2, Pt (pX (rMin (Bounds src)) + (pX (rMin ?r2) - pX (ptAdd (rMin (Bounds src)) off)))
               (pY (rMin (Bounds src)) + (pY (rMin ?r2) - pY (ptAdd (rMin (Bounds src)) off))))"
    by (simp add: clip_def Let_def orig rectAdd_ptSub_self)
  have i: "In p ?r2 \<longleftrightarrow> In p ?r \<and> In p (imgRect dst)"
    by (auto simp: In_Intersect)
  show ?thesis
  proof (cases "In p ?r2")
    case True
    then have "\<not> Empty ?r2" using Empty_not_In by blast
    with True i show ?thesis
      unfolding Draw_def c by (simp add: ptAdd_ptSub_shift)
  next
    case False
    with i show ?thesis
      unfolding Draw_def c by auto
  qed
qed

section \<open>The canvas and the composite, point by point\<close>

lemma NewRGBA_Ok:
  "NewRGBA r = Ok img \<Longrightarrow> img = \<lparr>imgRect = r, Pix = (\<lambda>p. (0, 0, 0, 0))\<rparr>"
  by (auto simp: NewRGBA_def split: if_splits)

lemma NewRGBA_not_Err [simp]: "NewRGBA r \<noteq> Err e"
  by (simp add: NewRGBA_def)

lemma fillCanvas_Ok:
  assumes "fillCanvas bgc pad srcImg = Ok canvas"
  shows "imgRect canvas = newRect pad srcImg"
    and "Pix canvas p =
           (if In p (newRect pad srcImg) \<and> In p (fillWindow pad srcImg)
            then color8 bgc else (0, 0, 0, 0))"
proof -
  from assms obtain img where n: "NewRGBA (newRect pad srcImg) = Ok img"
    and c: "canvas = Draw img (newRect pad srcImg) (Uniform bgc) (rMin (Bounds srcImg)) Src"
    by (auto simp: fillCanvas_def split: result.splits)
  from NewRGBA_Ok [OF n] have i: "imgRect img = newRect pad srcImg" "Pix img p = (0, 0, 0, 0)"
    by simp_all
  show "imgRect canvas = newRect pad srcImg" by (simp add: c i)
  show "Pix canvas p =
           (if In p (newRect pad srcImg) \<and> In p (fillWindow pad srcImg)
            then color8 bgc else (0, 0, 0, 0))"
    by (simp add: c Draw_Uniform_Pix i fillWindow_def)
qed

lemma fillCanvas_not_Err [simp]: "fillCanvas bgc pad srcImg \<noteq> Err e"
  by (simp add: fillCanvas_def split: result.splits)

lemma composite_not_Err [simp]: "composite bgc pad srcImg \<noteq> Err e"
  by (simp add: composite_def split: result.splits)

lemma composite_Ok:
  assumes "composite bgc pad srcImg = Ok destImg"
  obtains canvas where "fillCanvas bgc pad srcImg = Ok canvas"
    and "destImg = Draw canvas (rectAdd (Bounds srcImg) (offset pad)) (Decoded srcImg)
                     (rMin (Bounds srcImg)) Over"
  using assms by (auto simp: composite_def split: result.splits)

lemma composite_imgRect:
  "composite bgc pad srcImg = Ok destImg \<Longrightarrow> imgRect destImg = newRect pad srcImg"
  by (erule composite_Ok) (simp add: fillCanvas_Ok)

lemma composite_Pix:
  assumes "composite bgc pad srcImg = Ok destImg"
    and "fillCanvas bgc pad srcImg = Ok canvas"
  shows "Pix destImg p =
     (if In p (newRect pad srcImg) \<and> In p (rectAdd (Bounds srcImg) (offset pad))
      then blend Over (Pix canvas p) (At srcImg (ptSub p (offset pad)))
      else Pix canvas p)"
  using assms by (elim composite_Ok) (auto simp: Draw_Decoded_Pix fillCanvas_Ok)

lemma Dx_Rect0: "Dx (Rect 0 0 w h) = (if w <s 0 then - w else w)"
  by (simp add: Dx_def Rect_def Pt_def)

lemma Dy_Rect0: "Dy (Rect 0 0 w h) = (if h <s 0 then - h else h)"
  by (simp add: Dy_def Rect_def Pt_def)

lemma src8_max: "src8 0xffff = 255"
  by (simp add: src8_def)

lemma opaque_alpha8: "opaque c \<Longrightarrow> alpha8 (color8 c) = 255"
  by (cases "colorRGBA c") (simp add: opaque_def alphaOf_def color8_def alpha8_def src8_max)

section \<open>The sample inputs, evaluated\<close>

lemma fillCanvas_eval:
  "\<not> mul3NonNeg 4 (Dx (newRect pad srcImg)) (Dy (newRect pad srcImg)) <s 0 \<Longrightarrow>
   fillCanvas bgc pad srcImg = Ok (canvasOf bgc pad srcImg)"
  by (simp add: fillCanvas_def NewRGBA_def canvasOf_def)

lemma composite_eval:
  "\<not> mul3NonNeg 4 (Dx (newRect pad srcImg)) (Dy (newRect pad srcImg)) <s 0 \<Longrightarrow>
   composite bgc pad srcImg =
     Ok (Draw (canvasOf bgc pad srcImg) (rectAdd (Bounds srcImg) (offset pad)) (Decoded srcImg)
           (rMin (Bounds srcImg)) Over)"
  by (simp add: composite_def fillCanvas_eval)

text \<open>The canvas is built, or the allocation panics; no error is returned.\<close>

lemma composite_Panic:
  "mul3NonNeg 4 (Dx (newRect pad srcImg)) (Dy (newRect pad srcImg)) <s 0 \<Longrightarrow>
   composite bgc pad srcImg =
     Panic ''image: NewRGBA Rectangle has huge or negative dimensions''"
  by (simp add: composite_def fillCanvas_def NewRGBA_def)

lemma newRect_redSquare_1: "newRect (mkPadding 1 1 1 1) redSquare = Rect 0 0 4 4"
  by (simp add: newRect_def redSquare_def mkPadding_def Dx_def Dy_def Rect_def Pt_def
      word_sless_alt)

lemma newRect_redSquare_neg:
  "newRect (mkPadding (- 3) (- 3) (- 3) (- 3)) redSquare = Rect (- 4) (- 4) 0 0"
  by (simp add: newRect_def redSquare_def mkPadding_def Dx_def Dy_def Rect_def Pt_def
      word_sless_alt)

lemma alloc_4: "\<not> mul3NonNeg 4 (Dx (Rect 0 0 4 4)) (Dy (Rect 0 0 4 4)) <s 0"
  by (simp add: mul3NonNeg_def Dx_def Dy_def Rect_def Pt_def word_sless_alt)

lemma alloc_neg4: "\<not> mul3NonNeg 4 (Dx (Rect (- 4) (- 4) 0 0)) (Dy (Rect (- 4) (- 4) 0 0)) <s 0"
  by (simp add: mul3NonNeg_def Dx_def Dy_def Rect_def Pt_def word_sless_alt)

lemma composite_redSquare_1:
  "composite bgc (mkPadding 1 1 1 1) redSquare =
     Ok (Draw (canvasOf bgc (mkPadding 1 1 1 1) redSquare)
           (rectAdd (Bounds redSquare) (offset (mkPadding 1 1 1 1))) (Decoded redSquare)
           (rMin (Bounds redSquare)) Over)"
  by (rule composite_eval) (simp add: newRect_redSquare_1 alloc_4)

lemma composite_redSquare_neg:
  "composite bgc (mkPadding (- 3) (- 3) (- 3) (- 3)) redSquare =
     Ok (Draw (canvasOf bgc (mkPadding (- 3) (- 3) (- 3) (- 3)) redSquare)
           (rectAdd (Bounds redSquare) (offset (mkPadding (- 3) (- 3) (- 3) (- 3))))
           (Decoded redSquare) (rMin (Bounds redSquare)) Over)"
  by (rule composite_eval) (simp add: newRect_redSquare_neg alloc_neg4)


lemma color8_Transparent: "color8 Transparent = (0, 0, 0, 0)"
  by (simp add: color8_def Transparent_def src8_def)

section \<open>The compositor\<close>











section \<open>The size of the canvas\<close>

text \<open>
  Claim C6 as stated fails for a negative sum: with a padding of \<open>-3\<close> on every edge the
  2 by 2 image gives \<open>newWidth = 2 - 3 - 3 = -4\<close>, \<open>image.Rect(0, 0, -4, -4)\<close> swaps
  its corners, and the canvas is 4 wide, not \<open>-4\<close>.
\<close>

theorem canvas_size_counterexample:
  "case composite White (mkPadding (- 3) (- 3) (- 3) (- 3)) redSquare of
     Ok destImg \<Rightarrow>
       Dx (Bounds redSquare) + left (mkPadding (- 3) (- 3) (- 3) (- 3))
          + right (mkPadding (- 3) (- 3) (- 3) (- 3)) = - 4 \<and>
       Dx (imgRect destImg) = 4 \<and>
       Dx (imgRect destImg) \<noteq>
         Dx (Bounds redSquare) + left (mkPadding (- 3) (- 3) (- 3) (- 3))
           + right (mkPadding (- 3) (- 3) (- 3) (- 3))
   | Err e \<Rightarrow> False
   | Panic m \<Rightarrow> False"
  unfolding composite_redSquare_neg
  by (simp add: canvasOf_def newRect_redSquare_neg)
     (simp add: Dx_def Rect_def Pt_def redSquare_def mkPadding_def word_sless_alt)

text \<open>
  Claim C6, amended.  Whenever the canvas is allocated (in either direction: both build it
  with \<open>composite\<close>), its width is \<open>source width + right + left\<close> in Go's \<open>int\<close>
  arithmetic when that sum is not negative, and the negation of the sum when it is
  negative; likewise its height with \<open>top + bottom\<close>.  Neither is ever negative.
\<close>

theorem canvas_size:
  assumes "composite bgc pad srcImg = Ok destImg"
  shows "Dx (imgRect destImg) =
           (if Dx (Bounds srcImg) + right pad + left pad <s 0
            then - (Dx (Bounds srcImg) + right pad + left pad)
            else Dx (Bounds srcImg) + right pad + left pad) \<and>
         Dy (imgRect destImg) =
           (if Dy (Bounds srcImg) + top pad + bottom pad <s 0
            then - (Dy (Bounds srcImg) + top pad + bottom pad)
            else Dy (Bounds srcImg) + top pad + bottom pad) \<and>
         0 \<le>s Dx (imgRect destImg) \<and> 0 \<le>s Dy (imgRect destImg)"
proof -
  have r: "imgRect destImg = newRect pad srcImg"
    using assms by (rule composite_imgRect)
  from assms obtain canvas where "fillCanvas bgc pad srcImg = Ok canvas"
    by (rule composite_Ok)
  then have "\<not> mul3NonNeg 4 (Dx (newRect pad srcImg)) (Dy (newRect pad srcImg)) <s 0"
    by (auto simp: fillCanvas_def NewRGBA_def split: if_splits)
  then have nn: "\<not> Dx (newRect pad srcImg) <s 0" "\<not> Dy (newRect pad srcImg) <s 0"
    by (auto simp: mul3NonNeg_def word_sless_alt)
  show ?thesis
    using nn unfolding r
    by (simp add: newRect_def Let_def Dx_Rect0 Dy_Rect0 word_sless_alt word_sle_eq)
qed

text \<open>The theorem on the 2 by 2 image with a padding of 1: the canvas is 4 by 4.\<close>

theorem canvas_size_witness:
  "case composite White (mkPadding 1 1 1 1) redSquare of
     Ok destImg \<Rightarrow> Dx (imgRect destImg) = 4 \<and> Dy (imgRect destImg) = 4
   | Err e \<Rightarrow> False
   | Panic m \<Rightarrow> False"
proof -
  let ?pad = "mkPadding 1 1 1 1"
  let ?d = "Draw (canvasOf White ?pad redSquare) (rectAdd (Bounds redSquare) (offset ?pad))
              (Decoded redSquare) (rMin (Bounds redSquare)) Over"
  have ok: "composite White ?pad redSquare = Ok ?d"
    by (rule composite_redSquare_1)
  have s: "Dx (Bounds redSquare) + right ?pad + left ?pad = 4"
    "Dy (Bounds redSquare) + top ?pad + bottom ?pad = 4"
    by (simp_all add: redSquare_def mkPadding_def Dx_def Dy_def Rect_def Pt_def word_sless_alt)
  from canvas_size [OF ok] have "Dx (imgRect ?d) = 4 \<and> Dy (imgRect ?d) = 4"
    unfolding s by (simp add: word_sless_alt)
  then show ?thesis unfolding ok by simp
qed

section \<open>The file operations and the two conversions, path by path\<close>

lemma os_Open_Some:
  "files w name = Some content \<Longrightarrow>
   os_Open name w = (Inr name, w\<lparr>openHandles := name # openHandles w, ioLog := ioLog w @ [EvOpen name]\<rparr>)"
  by (simp add: os_Open_def)

lemma os_Open_None:
  "files w name = None \<Longrightarrow>
   os_Open name w = (Inl (PathError ''open'' name ENOENT), w\<lparr>ioLog := ioLog w @ [EvOpen name]\<rparr>)"
  by (simp add: os_Open_def)

lemma os_Open_files [simp]: "files (snd (os_Open name w)) = files w"
  by (simp add: os_Open_def split: option.splits)

lemma file_Read_files [simp]: "files (snd (file_Read h w)) = files w"
  by (simp add: file_Read_def)

lemma file_Close_files [simp]: "files (file_Close h w) = files w"
  by (simp add: file_Close_def)

lemma os_OpenFile_excl_Some:
  "files w name = Some old \<Longrightarrow>
   os_OpenFile_excl name w =
     (Inl (PathError ''open'' name EEXIST), w\<lparr>ioLog := ioLog w @ [EvOpenExcl name]\<rparr>)"
  by (simp add: os_OpenFile_excl_def)

lemma os_OpenFile_excl_None:
  "files w name = None \<Longrightarrow>
   os_OpenFile_excl name w =
     (Inr name, w\<lparr>files := (files w)(name \<mapsto> []), openHandles := name # openHandles w,
                   ioLog := ioLog w @ [EvOpenExcl name]\<rparr>)"
  by (simp add: os_OpenFile_excl_def)

lemma errResult_Ok: "errResult eo = Ok u \<longleftrightarrow> eo = None"
  by (simp add: errResult_def split: option.splits)

lemma convertPNGToJPEG_no_input:
  "files w inputFile = None \<Longrightarrow>
   convertPNGToJPEG lib inputFile outputFile config w =
     (Err (PathError ''open'' inputFile ENOENT), w\<lparr>ioLog := ioLog w @ [EvOpen inputFile]\<rparr>)"
  by (simp add: convertPNGToJPEG_def os_Open_None)

lemma convertPNGToJPEG_decode_error:
  "files w inputFile = Some content \<Longrightarrow> png_Decode lib content = Inl err \<Longrightarrow>
   convertPNGToJPEG lib inputFile outputFile config w =
     (Err err, w\<lparr>openHandles := inputFile # openHandles w,
                  ioLog := ioLog w @ [EvOpen inputFile, EvRead inputFile]\<rparr>)"
  by (simp add: convertPNGToJPEG_def os_Open_Some file_Read_def)

lemma afterDecode_files [simp]: "files (afterDecode i w) = files w"
  by (simp add: afterDecode_def)

lemma convertPNGToJPEG_decoded:
  "files w inputFile = Some content \<Longrightarrow> png_Decode lib content = Inr srcImg \<Longrightarrow>
   convertPNGToJPEG lib inputFile outputFile config w =
     (case composite (bgColor config) (padding config) srcImg of
        Panic m \<Rightarrow> (Panic m, afterDecode inputFile w)
      | Err e \<Rightarrow> (Err e, afterDecode inputFile w)
      | Ok destImg \<Rightarrow>
          (case os_OpenFile_excl outputFile (afterDecode inputFile w) of
             (Inl err, w4) \<Rightarrow> (Err err, w4)
           | (Inr outFile, w4) \<Rightarrow>
               (case jpeg_Encode lib destImg 50 of
                  (bytes, eo) \<Rightarrow> (errResult eo, file_Write outFile bytes w4))))"
  by (simp add: convertPNGToJPEG_def os_Open_Some file_Read_def file_Close_def afterDecode_def
      Let_def
      split: result.splits)

lemma convertJPEGToPNG_no_input:
  "files w inputFile = None \<Longrightarrow>
   convertJPEGToPNG lib inputFile outputFile config w =
     (Err (PathError ''open'' inputFile ENOENT), w\<lparr>ioLog := ioLog w @ [EvOpen inputFile]\<rparr>)"
  by (simp add: convertJPEGToPNG_def os_Open_None)

lemma convertJPEGToPNG_decode_error:
  "files w inputFile = Some content \<Longrightarrow> jpeg_Decode lib content = Inl err \<Longrightarrow>
   convertJPEGToPNG lib inputFile outputFile config w =
     (Err err, w\<lparr>openHandles := inputFile # openHandles w,
                  ioLog := ioLog w @ [EvOpen inputFile, EvRead inputFile]\<rparr>)"
  by (simp add: convertJPEGToPNG_def os_Open_Some file_Read_def)

lemma convertJPEGToPNG_decoded:
  "files w inputFile = Some content \<Longrightarrow> jpeg_Decode lib content = Inr srcImg \<Longrightarrow>
   convertJPEGToPNG lib inputFile outputFile config w =
     (case os_OpenFile_excl outputFile (afterDecode inputFile w) of
        (Inl err, w4) \<Rightarrow> (Err err, w4)
      | (Inr outFile, w4) \<Rightarrow>
          (case composite Transparent (padding config) srcImg of
             Panic m \<Rightarrow> (Panic m, w4)
           | Err e \<Rightarrow> (Err e, w4)
           | Ok destImg \<Rightarrow>
               (case png_Encode lib destImg of
                  (bytes, eo) \<Rightarrow> (errResult eo, file_Write outFile bytes w4))))"
  by (simp add: convertJPEGToPNG_def os_Open_Some file_Read_def file_Close_def afterDecode_def
      Let_def)

lemma afterDecode_openHandles [simp]: "openHandles (afterDecode i w) = openHandles w"
  by (simp add: afterDecode_def)

lemma afterDecode_ioLog [simp]:
  "ioLog (afterDecode i w) = ioLog w @ [EvOpen i, EvRead i, EvClose i]"
  by (simp add: afterDecode_def)

lemma convertPNGToJPEG_success_path:
  assumes "files w inputFile = Some content" and "png_Decode lib content = Inr srcImg"
    and "composite (bgColor config) (padding config) srcImg = Ok destImg"
    and "files w outputFile = None"
  shows "convertPNGToJPEG lib inputFile outputFile config w =
     (errResult (snd (jpeg_Encode lib destImg 50)),
      (afterCreate inputFile outputFile (fst (jpeg_Encode lib destImg 50)) w)
        \<lparr>ioLog := ioLog w @ [EvOpen inputFile, EvRead inputFile, EvClose inputFile,
                             EvOpenExcl outputFile, EvWrite outputFile]\<rparr>)"
  using assms
  by (simp add: convertPNGToJPEG_decoded os_OpenFile_excl_None file_Write_def afterCreate_def
      afterDecode_def split: prod.splits)

lemma convertPNGToJPEG_exists:
  assumes "files w inputFile = Some content" and "png_Decode lib content = Inr srcImg"
    and "composite (bgColor config) (padding config) srcImg = Ok destImg"
    and "files w outputFile = Some old"
  shows "convertPNGToJPEG lib inputFile outputFile config w =
     (Err (PathError ''open'' outputFile EEXIST),
      w\<lparr>ioLog := ioLog w @ [EvOpen inputFile, EvRead inputFile, EvClose inputFile,
                            EvOpenExcl outputFile]\<rparr>)"
  using assms
  by (simp add: convertPNGToJPEG_decoded os_OpenFile_excl_Some afterDecode_def)

lemma convertJPEGToPNG_success_path:
  assumes "files w inputFile = Some content" and "jpeg_Decode lib content = Inr srcImg"
    and "composite Transparent (padding config) srcImg = Ok destImg"
    and "files w outputFile = None"
  shows "convertJPEGToPNG lib inputFile outputFile config w =
     (errResult (snd (png_Encode lib destImg)),
      (afterCreate inputFile outputFile (fst (png_Encode lib destImg)) w)
        \<lparr>ioLog := ioLog w @ [EvOpen inputFile, EvRead inputFile, EvClose inputFile,
                             EvOpenExcl outputFile, EvWrite outputFile]\<rparr>)"
  using assms
  by (simp add: convertJPEGToPNG_decoded os_OpenFile_excl_None file_Write_def afterCreate_def
      afterDecode_def split: prod.splits)

lemma convertJPEGToPNG_exists:
  assumes "files w inputFile = Some content" and "jpeg_Decode lib content = Inr srcImg"
    and "files w outputFile = Some old"
  shows "convertJPEGToPNG lib inputFile outputFile config w =
     (Err (PathError ''open'' outputFile EEXIST),
      w\<lparr>ioLog := ioLog w @ [EvOpen inputFile, EvRead inputFile, EvClose inputFile,
                            EvOpenExcl outputFile]\<rparr>)"
  using assms
  by (simp add: convertJPEGToPNG_decoded os_OpenFile_excl_Some afterDecode_def)

text \<open>An output path that exists: no success, no change of any file.\<close>

lemma convertPNGToJPEG_keeps_existing:
  assumes "files w outputFile = Some old"
  shows "fst (convertPNGToJPEG lib inputFile outputFile config w) \<noteq> Ok u \<and>
         files (snd (convertPNGToJPEG lib inputFile outputFile config w)) = files w"
proof (cases "files w inputFile")
  case None
  then show ?thesis by (simp add: convertPNGToJPEG_no_input)
next
  case (Some content)
  show ?thesis
  proof (cases "png_Decode lib content")
    case (Inl err)
    with Some show ?thesis by (simp add: convertPNGToJPEG_decode_error)
  next
    case (Inr srcImg)
    show ?thesis
    proof (cases "composite (bgColor config) (padding config) srcImg")
      case (Ok destImg)
      from convertPNGToJPEG_exists [OF Some Inr Ok assms] show ?thesis by simp
    next
      case (Err e)
      then show ?thesis by simp
    next
      case (Panic m)
      with Some Inr show ?thesis by (simp add: convertPNGToJPEG_decoded)
    qed
  qed
qed

lemma convertJPEGToPNG_keeps_existing:
  assumes "files w outputFile = Some old"
  shows "fst (convertJPEGToPNG lib inputFile outputFile config w) \<noteq> Ok u \<and>
         files (snd (convertJPEGToPNG lib inputFile outputFile config w)) = files w"
proof (cases "files w inputFile")
  case None
  then show ?thesis by (simp add: convertJPEGToPNG_no_input)
next
  case (Some content)
  show ?thesis
  proof (cases "jpeg_Decode lib content")
    case (Inl err)
    with Some show ?thesis by (simp add: convertJPEGToPNG_decode_error)
  next
    case (Inr srcImg)
    from convertJPEGToPNG_exists [OF Some Inr assms] show ?thesis by simp
  qed
qed

section \<open>The sample files, codecs and formats, evaluated\<close>

lemma sample_files:
  "files sampleWorld ''in.png'' = Some ''PNG''"
  "files sampleWorld ''in.jpg'' = Some ''JPG''"
  "files sampleWorld ''bad.png'' = Some ''garbage''"
  "files sampleWorld ''old.jpg'' = Some ''old''"
  "files sampleWorld ''old.png'' = Some ''old''"
  "files sampleWorld ''out.jpg'' = None"
  "files sampleWorld ''out.png'' = None"
  by (simp_all add: sampleWorld_def)

lemma sample_decode:
  "png_Decode sampleLib ''PNG'' = Inr redSquare"
  "jpeg_Decode sampleLib ''JPG'' = Inr redSquare"
  "png_Decode sampleLib ''garbage'' = Inl (CodecError ''png: invalid format: not a PNG file'')"
  by (simp_all add: sampleLib_def)

lemma sample_encode:
  "jpeg_Encode sampleLib img q = (''jpeg bytes'', None)"
  "png_Encode sampleLib img = (''png bytes'', None)"
  by (simp_all add: sampleLib_def)

lemma lowerByte_lower:
  "lowerByte CHR ''.'' = CHR ''.''" "lowerByte CHR ''p'' = CHR ''p''"
  "lowerByte CHR ''n'' = CHR ''n''" "lowerByte CHR ''g'' = CHR ''g''"
  "lowerByte CHR ''j'' = CHR ''j''" "lowerByte CHR ''t'' = CHR ''t''"
  "lowerByte CHR ''x'' = CHR ''x''"
  by (simp_all add: lowerByte_def)

lemma sample_formats:
  "detectFormat (unicodeLower sampleLib) ''in.png'' = ''png''"
  "detectFormat (unicodeLower sampleLib) ''bad.png'' = ''png''"
  "detectFormat (unicodeLower sampleLib) ''old.png'' = ''png''"
  "detectFormat (unicodeLower sampleLib) ''out.png'' = ''png''"
  "detectFormat (unicodeLower sampleLib) ''in.jpg'' = ''jpeg''"
  "detectFormat (unicodeLower sampleLib) ''old.jpg'' = ''jpeg''"
  "detectFormat (unicodeLower sampleLib) ''out.jpg'' = ''jpeg''"
  "detectFormat (unicodeLower sampleLib) ''notes.txt'' = ''unknown''"
  by (simp_all add: detectFormat_def Ext_def ToLower_def isASCII_def lowerByte_lower)

lemma sample_composite:
  "composite (bgColor sampleConfig) (padding sampleConfig) redSquare =
      Ok (Draw (canvasOf White (mkPadding 1 1 1 1) redSquare)
           (rectAdd (Bounds redSquare) (offset (mkPadding 1 1 1 1))) (Decoded redSquare)
           (rMin (Bounds redSquare)) Over)"
  by (simp add: sampleConfig_def composite_redSquare_1)

lemma convertImage_png_to_jpeg:
  "detectFormat (unicodeLower lib) inputFile = ''png'' \<Longrightarrow>
   detectFormat (unicodeLower lib) outputFile = ''jpeg'' \<Longrightarrow>
   convertImage lib inputFile outputFile config w =
     convertPNGToJPEG lib inputFile outputFile config w"
  by (simp add: convertImage_def Let_def)

lemma convertImage_jpeg_to_png:
  "detectFormat (unicodeLower lib) inputFile = ''jpeg'' \<Longrightarrow>
   detectFormat (unicodeLower lib) outputFile = ''png'' \<Longrightarrow>
   convertImage lib inputFile outputFile config w =
     convertJPEGToPNG lib inputFile outputFile config w"
  by (simp add: convertImage_def Let_def)

section \<open>Unsupported format pairs\<close>

text \<open>
  Claim C8.  For every pair of paths whose detected formats are neither (png, jpeg) nor
  (jpeg, png), same formats and \<open>unknown\<close> included, \<open>convertImage\<close> returns the
  error \<open>unsupported conversion: <input format> to <output format>\<close>, and the world is
  the one it was given: no file operation was made, on the output path or any other.
\<close>

theorem unsupported_conversion:
  assumes "\<not> (detectFormat (unicodeLower lib) inputFile = ''png'' \<and>
              detectFormat (unicodeLower lib) outputFile = ''jpeg'')"
    and "\<not> (detectFormat (unicodeLower lib) inputFile = ''jpeg'' \<and>
             detectFormat (unicodeLower lib) outputFile = ''png'')"
  shows "convertImage lib inputFile outputFile config w =
           (Err (Errorf (''unsupported conversion: '' @ detectFormat (unicodeLower lib) inputFile
                          @ '' to '' @ detectFormat (unicodeLower lib) outputFile)), w) \<and>
         ioLog (snd (convertImage lib inputFile outputFile config w)) = ioLog w \<and>
         files (snd (convertImage lib inputFile outputFile config w)) = files w"
  using assms by (auto simp: convertImage_def Let_def)

text \<open>The theorem on a png to png pair and on a pair with an unknown input format.\<close>

theorem unsupported_conversion_witness:
  "convertImage sampleLib ''in.png'' ''out.png'' sampleConfig sampleWorld =
     (Err (Errorf ''unsupported conversion: png to png''), sampleWorld) \<and>
   convertImage sampleLib ''notes.txt'' ''out.png'' sampleConfig sampleWorld =
     (Err (Errorf ''unsupported conversion: unknown to png''), sampleWorld) \<and>
   ioLog (snd (convertImage sampleLib ''notes.txt'' ''out.png'' sampleConfig sampleWorld)) = []"
  using unsupported_conversion [of sampleLib "''in.png''" "''out.png''" sampleConfig sampleWorld]
    unsupported_conversion [of sampleLib "''notes.txt''" "''out.png''" sampleConfig sampleWorld]
  by (simp add: sample_formats) (simp add: sampleWorld_def)

section \<open>An output path that already exists\<close>

text \<open>
  Claim C9 as stated fails when the conversion stops before it reaches the output: with an
  existing \<open>old.jpg\<close> and an input that is not a PNG, the error is the decoder's, not
  the one of the exclusive-create open.
\<close>

theorem existing_output_counterexample:
  "files sampleWorld ''old.jpg'' = Some ''old'' \<and>
   fst (convertImage sampleLib ''bad.png'' ''old.jpg'' sampleConfig sampleWorld) =
     Err (CodecError ''png: invalid format: not a PNG file'') \<and>
   fst (convertImage sampleLib ''bad.png'' ''old.jpg'' sampleConfig sampleWorld) \<noteq>
     Err (PathError ''open'' ''old.jpg'' EEXIST)"
  by (simp add: convertImage_png_to_jpeg sample_formats
      convertPNGToJPEG_decode_error [OF sample_files(3) sample_decode(3)] sample_files)

text \<open>
  Claim C9, amended.  For every conversion in which the output path already exists, the
  conversion does not succeed and every file, the existing output among them, is left as
  it was.  When the input opens and decodes (and, from PNG to JPEG, the canvas is
  allocated, which there comes before the output is opened), the failure is the error of
  the exclusive-create open: \<open>open <output>: file exists\<close>.
\<close>

theorem existing_output_untouched:
  assumes "files w outputFile = Some old"
  shows "fst (convertImage lib inputFile outputFile config w) \<noteq> Ok () \<and>
         files (snd (convertImage lib inputFile outputFile config w)) = files w \<and>
         fst (convertPNGToJPEG lib inputFile outputFile config w) \<noteq> Ok () \<and>
         files (snd (convertPNGToJPEG lib inputFile outputFile config w)) = files w \<and>
         fst (convertJPEGToPNG lib inputFile outputFile config w) \<noteq> Ok () \<and>
         files (snd (convertJPEGToPNG lib inputFile outputFile config w)) = files w \<and>
         (\<forall>content srcImg destImg.
            files w inputFile = Some content \<and> png_Decode lib content = Inr srcImg \<and>
            composite (bgColor config) (padding config) srcImg = Ok destImg \<longrightarrow>
            fst (convertPNGToJPEG lib inputFile outputFile config w) =
              Err (PathError ''open'' outputFile EEXIST)) \<and>
         (\<forall>content srcImg.
            files w inputFile = Some content \<and> jpeg_Decode lib content = Inr srcImg \<longrightarrow>
            fst (convertJPEGToPNG lib inputFile outputFile config w) =
              Err (PathError ''open'' outputFile EEXIST))"
proof -
  note a = convertPNGToJPEG_keeps_existing [OF assms, of lib inputFile config "()"]
  note b = convertJPEGToPNG_keeps_existing [OF assms, of lib inputFile config "()"]
  have c: "fst (convertImage lib inputFile outputFile config w) \<noteq> Ok () \<and>
           files (snd (convertImage lib inputFile outputFile config w)) = files w"
    using a b by (simp add: convertImage_def Let_def)
  have d: "\<forall>content srcImg destImg.
            files w inputFile = Some content \<and> png_Decode lib content = Inr srcImg \<and>
            composite (bgColor config) (padding config) srcImg = Ok destImg \<longrightarrow>
            fst (convertPNGToJPEG lib inputFile outputFile config w) =
              Err (PathError ''open'' outputFile EEXIST)"
    using assms by (auto simp: convertPNGToJPEG_exists)
  have e: "\<forall>content srcImg.
            files w inputFile = Some content \<and> jpeg_Decode lib content = Inr srcImg \<longrightarrow>
            fst (convertJPEGToPNG lib inputFile outputFile config w) =
              Err (PathError ''open'' outputFile EEXIST)"
    using assms by (auto simp: convertJPEGToPNG_exists)
  from a b c d e show ?thesis by blast
qed

text \<open>The theorem on the sample files, in both directions.\<close>

theorem existing_output_untouched_witness:
  "files sampleWorld ''old.jpg'' = Some ''old'' \<and>
   fst (convertPNGToJPEG sampleLib ''in.png'' ''old.jpg'' sampleConfig sampleWorld) =
     Err (PathError ''open'' ''old.jpg'' EEXIST) \<and>
   files (snd (convertPNGToJPEG sampleLib ''in.png'' ''old.jpg'' sampleConfig sampleWorld))
     ''old.jpg'' = Some ''old'' \<and>
   fst (convertJPEGToPNG sampleLib ''in.jpg'' ''old.png'' sampleConfig sampleWorld) =
     Err (PathError ''open'' ''old.png'' EEXIST) \<and>
   files (snd (convertJPEGToPNG sampleLib ''in.jpg'' ''old.png'' sampleConfig sampleWorld))
     ''old.png'' = Some ''old''"
proof -
  have ok: "composite (bgColor sampleConfig) (padding sampleConfig) redSquare =
      Ok (Draw (canvasOf White (mkPadding 1 1 1 1) redSquare)
           (rectAdd (Bounds redSquare) (offset (mkPadding 1 1 1 1))) (Decoded redSquare)
           (rMin (Bounds redSquare)) Over)"
    by (simp add: sampleConfig_def composite_redSquare_1)
  from existing_output_untouched [OF sample_files(4), of sampleLib "''in.png''" sampleConfig]
    sample_files(1) sample_decode(1) ok
  have 1: "fst (convertPNGToJPEG sampleLib ''in.png'' ''old.jpg'' sampleConfig sampleWorld) =
       Err (PathError ''open'' ''old.jpg'' EEXIST)"
    and 2: "files (snd (convertPNGToJPEG sampleLib ''in.png'' ''old.jpg'' sampleConfig sampleWorld))
       = files sampleWorld"
    by blast+
  from existing_output_untouched [OF sample_files(5), of sampleLib "''in.jpg''" sampleConfig]
    sample_files(2) sample_decode(2)
  have 3: "fst (convertJPEGToPNG sampleLib ''in.jpg'' ''old.png'' sampleConfig sampleWorld) =
       Err (PathError ''open'' ''old.png'' EEXIST)"
    and 4: "files (snd (convertJPEGToPNG sampleLib ''in.jpg'' ''old.png'' sampleConfig sampleWorld))
       = files sampleWorld"
    by blast+
  show ?thesis
    by (simp add: 1 2 3 4 sample_files)
qed

section \<open>File handles\<close>

text \<open>
  The input handle is closed only after a successful decode, and the output handle is
  never closed: after a decode error the input handle is still open when the call returns,
  and after a conversion that reached the encoder the output handle is.
\<close>

lemma input_handle_open_after_png_decode_error:
  "files w inputFile = Some content \<Longrightarrow> png_Decode lib content = Inl err \<Longrightarrow>
   inputFile \<in> set (openHandles (snd (convertPNGToJPEG lib inputFile outputFile config w)))"
  by (simp add: convertPNGToJPEG_decode_error)

lemma input_handle_open_after_jpeg_decode_error:
  "files w inputFile = Some content \<Longrightarrow> jpeg_Decode lib content = Inl err \<Longrightarrow>
   inputFile \<in> set (openHandles (snd (convertJPEGToPNG lib inputFile outputFile config w)))"
  by (simp add: convertJPEGToPNG_decode_error)

lemma output_handle_open_after_png_to_jpeg:
  assumes "files w inputFile = Some content" and "png_Decode lib content = Inr srcImg"
    and "composite (bgColor config) (padding config) srcImg = Ok destImg"
    and "files w outputFile = None"
  shows "outputFile \<in> set (openHandles (snd (convertPNGToJPEG lib inputFile outputFile config w)))"
  by (simp add: convertPNGToJPEG_success_path [OF assms] afterCreate_def)

lemma output_handle_open_after_jpeg_to_png:
  assumes "files w inputFile = Some content" and "jpeg_Decode lib content = Inr srcImg"
    and "composite Transparent (padding config) srcImg = Ok destImg"
    and "files w outputFile = None"
  shows "outputFile \<in> set (openHandles (snd (convertJPEGToPNG lib inputFile outputFile config w)))"
  by (simp add: convertJPEGToPNG_success_path [OF assms] afterCreate_def)

text \<open>
  Claim C10 does not hold of the code.  On the sample files no handle is open before the
  call; after a call that fails in the decoder the input handle \<open>bad.png\<close> is still
  open, and after a call that succeeds the output handle \<open>out.jpg\<close> is.
\<close>

theorem handles_left_open:
  "openHandles sampleWorld = [] \<and>
   fst (convertImage sampleLib ''bad.png'' ''out.jpg'' sampleConfig sampleWorld) =
     Err (CodecError ''png: invalid format: not a PNG file'') \<and>
   openHandles (snd (convertImage sampleLib ''bad.png'' ''out.jpg'' sampleConfig sampleWorld)) =
     [''bad.png''] \<and>
   fst (convertImage sampleLib ''in.png'' ''out.jpg'' sampleConfig sampleWorld) = Ok () \<and>
   openHandles (snd (convertImage sampleLib ''in.png'' ''out.jpg'' sampleConfig sampleWorld)) =
     [''out.jpg'']"
  by (simp add: convertImage_png_to_jpeg sample_formats
      convertPNGToJPEG_decode_error [OF sample_files(3) sample_decode(3)]
      convertPNGToJPEG_success_path [OF sample_files(1) sample_decode(1) sample_composite
        sample_files(6)]
      sample_encode errResult_def afterCreate_def)
     (simp add: sampleWorld_def)

section \<open>JPEG to PNG: the configured background is not used\<close>

text \<open>
  Claim C5.  For any two configurations with the same padding, whatever their background
  colors, \<open>convertJPEGToPNG\<close> on the same library, paths and world gives the same result
  and the same world, the bytes written included (and so does \<open>convertImage\<close> on a
  jpeg to png pair).  When the conversion reaches the encoder, the image it encodes is
  the composite over \<open>color.Transparent\<close>, and every point of it outside the offset
  source rectangle is \<open>(0, 0, 0, 0)\<close>: alpha 0.
\<close>

theorem jpeg_to_png_ignores_background:
  assumes "padding cfg1 = padding cfg2"
  shows "convertJPEGToPNG lib inputFile outputFile cfg1 w =
           convertJPEGToPNG lib inputFile outputFile cfg2 w \<and>
         (detectFormat (unicodeLower lib) inputFile = ''jpeg'' \<and>
          detectFormat (unicodeLower lib) outputFile = ''png'' \<longrightarrow>
            convertImage lib inputFile outputFile cfg1 w =
              convertImage lib inputFile outputFile cfg2 w) \<and>
         (\<forall>content srcImg destImg.
            files w inputFile = Some content \<and> jpeg_Decode lib content = Inr srcImg \<and>
            files w outputFile = None \<and>
            composite Transparent (padding cfg1) srcImg = Ok destImg \<longrightarrow>
              fst (convertJPEGToPNG lib inputFile outputFile cfg1 w) =
                errResult (snd (png_Encode lib destImg)) \<and>
              files (snd (convertJPEGToPNG lib inputFile outputFile cfg1 w)) outputFile =
                Some (fst (png_Encode lib destImg)) \<and>
              (\<forall>p. In p (imgRect destImg) \<and>
                   \<not> In p (rectAdd (Bounds srcImg) (offset (padding cfg1))) \<longrightarrow>
                   Pix destImg p = (0, 0, 0, 0) \<and> alpha8 (Pix destImg p) = 0))"
proof -
  have a: "convertJPEGToPNG lib inputFile outputFile cfg1 w =
           convertJPEGToPNG lib inputFile outputFile cfg2 w"
    unfolding convertJPEGToPNG_def assms by (rule refl)
  have b: "detectFormat (unicodeLower lib) inputFile = ''jpeg'' \<and>
          detectFormat (unicodeLower lib) outputFile = ''png'' \<longrightarrow>
            convertImage lib inputFile outputFile cfg1 w =
              convertImage lib inputFile outputFile cfg2 w"
    using a by (simp add: convertImage_jpeg_to_png)
  have c: "fst (convertJPEGToPNG lib inputFile outputFile cfg1 w) =
                errResult (snd (png_Encode lib destImg)) \<and>
              files (snd (convertJPEGToPNG lib inputFile outputFile cfg1 w)) outputFile =
                Some (fst (png_Encode lib destImg)) \<and>
              (\<forall>p. In p (imgRect destImg) \<and>
                   \<not> In p (rectAdd (Bounds srcImg) (offset (padding cfg1))) \<longrightarrow>
                   Pix destImg p = (0, 0, 0, 0) \<and> alpha8 (Pix destImg p) = 0)"
    if h: "files w inputFile = Some content" "jpeg_Decode lib content = Inr srcImg"
      "files w outputFile = None" "composite Transparent (padding cfg1) srcImg = Ok destImg"
    for content srcImg destImg
  proof -
    note p = convertJPEGToPNG_success_path [OF h(1) h(2) h(4) h(3)]
    from h(4) obtain canvas
      where f: "fillCanvas Transparent (padding cfg1) srcImg = Ok canvas"
      by (rule composite_Ok)
    have z: "Pix canvas p = (0, 0, 0, 0)" for p
      by (simp add: fillCanvas_Ok(2) [OF f] color8_Transparent)
    have "\<forall>p. In p (imgRect destImg) \<and>
                   \<not> In p (rectAdd (Bounds srcImg) (offset (padding cfg1))) \<longrightarrow>
                   Pix destImg p = (0, 0, 0, 0) \<and> alpha8 (Pix destImg p) = 0"
      by (simp add: composite_Pix [OF h(4) f] z alpha8_def)
    then show ?thesis
      by (simp add: p afterCreate_def alpha8_def)
  qed
  from a b c show ?thesis by blast
qed

text \<open>
  The theorem on the sample JPEG with a white and with a red configured background: the
  same outcome, and a transparent corner.
\<close>

theorem jpeg_to_png_ignores_background_witness:
  "convertJPEGToPNG sampleLib ''in.jpg'' ''out.png'' sampleConfig sampleWorld =
     convertJPEGToPNG sampleLib ''in.jpg'' ''out.png''
       \<lparr>bgColor = RGBA 255 0 0 0, padding = mkPadding 1 1 1 1\<rparr> sampleWorld \<and>
   fst (convertJPEGToPNG sampleLib ''in.jpg'' ''out.png'' sampleConfig sampleWorld) = Ok () \<and>
   files (snd (convertJPEGToPNG sampleLib ''in.jpg'' ''out.png'' sampleConfig sampleWorld))
     ''out.png'' = Some ''png bytes'' \<and>
   (case composite Transparent (padding sampleConfig) redSquare of
      Ok destImg \<Rightarrow> In (Pt 0 0) (imgRect destImg) \<and> Pix destImg (Pt 0 0) = (0, 0, 0, 0)
    | Err e \<Rightarrow> False
    | Panic m \<Rightarrow> False)"
proof -
  let ?pad = "mkPadding 1 1 1 1"
  let ?cfg2 = "\<lparr>bgColor = RGBA 255 0 0 0, padding = ?pad\<rparr>"
  let ?d = "Draw (canvasOf Transparent ?pad redSquare) (rectAdd (Bounds redSquare) (offset ?pad))
              (Decoded redSquare) (rMin (Bounds redSquare)) Over"
  have pad: "padding sampleConfig = padding ?cfg2" "padding sampleConfig = ?pad"
    by (simp_all add: sampleConfig_def)
  have ok: "composite Transparent (padding sampleConfig) redSquare = Ok ?d"
    unfolding pad(2) by (rule composite_redSquare_1)
  have r: "imgRect ?d = Rect 0 0 4 4"
    using composite_imgRect [OF ok] by (simp add: pad(2) newRect_redSquare_1)
  have i0: "In (Pt 0 0) (imgRect ?d)"
    unfolding r by (simp add: In_def Rect_def Pt_def word_sless_alt word_sle_eq)
  have o0: "\<not> In (Pt 0 0) (rectAdd (Bounds redSquare) (offset (padding sampleConfig)))"
    by (simp add: In_def Rect_def Pt_def word_sless_alt word_sle_eq rectAdd_def
        redSquare_def offset_def mkPadding_def ptAdd_def pad(2))
  note t = jpeg_to_png_ignores_background [OF pad(1), of sampleLib "''in.jpg''" "''out.png''"
      sampleWorld]
  from t have 1: "convertJPEGToPNG sampleLib ''in.jpg'' ''out.png'' sampleConfig sampleWorld =
     convertJPEGToPNG sampleLib ''in.jpg'' ''out.png'' ?cfg2 sampleWorld"
    by blast
  from t sample_files(2) sample_decode(2) sample_files(7) ok
  have 2: "fst (convertJPEGToPNG sampleLib ''in.jpg'' ''out.png'' sampleConfig sampleWorld) =
                errResult (snd (png_Encode sampleLib ?d))"
    and 3: "files (snd (convertJPEGToPNG sampleLib ''in.jpg'' ''out.png'' sampleConfig sampleWorld))
                ''out.png'' = Some (fst (png_Encode sampleLib ?d))"
    and 4: "\<forall>p. In p (imgRect ?d) \<and>
                   \<not> In p (rectAdd (Bounds redSquare) (offset (padding sampleConfig))) \<longrightarrow>
                   Pix ?d p = (0, 0, 0, 0) \<and> alpha8 (Pix ?d p) = 0"
    by blast+
  from 4 i0 o0 have 5: "Pix ?d (Pt 0 0) = (0, 0, 0, 0)" by blast
  show ?thesis
    unfolding ok using 1 [symmetric] i0 5 by (simp add: 2 3 sample_encode errResult_def)
qed

section \<open>PNG to JPEG: the fill and the quality\<close>

text \<open>
  What the conversion does when it reaches the encoder: it returns what the JPEG encoder
  returns for the composite at quality 50, the output file holds the bytes the encoder
  wrote, and the canvas was filled by overwrite with the bytes of the configured color as
  far as the uniform image reaches; where the configured color is opaque, that fill is.
\<close>

lemma convertPNGToJPEG_fill_and_quality:
  assumes "files w inputFile = Some content"
    and "png_Decode lib content = Inr srcImg"
    and "composite (bgColor config) (padding config) srcImg = Ok destImg"
    and "files w outputFile = None"
  shows "fst (convertPNGToJPEG lib inputFile outputFile config w) =
           errResult (snd (jpeg_Encode lib destImg 50)) \<and>
         files (snd (convertPNGToJPEG lib inputFile outputFile config w)) outputFile =
           Some (fst (jpeg_Encode lib destImg 50)) \<and>
         (\<exists>canvas.
            fillCanvas (bgColor config) (padding config) srcImg = Ok canvas \<and>
            destImg = Draw canvas (rectAdd (Bounds srcImg) (offset (padding config)))
                        (Decoded srcImg) (rMin (Bounds srcImg)) Over \<and>
            (\<forall>p. In p (imgRect canvas) \<and> In p (fillWindow (padding config) srcImg) \<longrightarrow>
                 Pix canvas p = color8 (bgColor config) \<and>
                 (opaque (bgColor config) \<longrightarrow> alpha8 (Pix canvas p) = 255)))"
proof -
  note p = convertPNGToJPEG_success_path [OF assms]
  from assms(3) obtain canvas
    where f: "fillCanvas (bgColor config) (padding config) srcImg = Ok canvas"
      and d: "destImg = Draw canvas (rectAdd (Bounds srcImg) (offset (padding config)))
                        (Decoded srcImg) (rMin (Bounds srcImg)) Over"
    by (rule composite_Ok)
  have "\<forall>p. In p (imgRect canvas) \<and> In p (fillWindow (padding config) srcImg) \<longrightarrow>
                 Pix canvas p = color8 (bgColor config) \<and>
                 (opaque (bgColor config) \<longrightarrow> alpha8 (Pix canvas p) = 255)"
    using f by (simp add: fillCanvas_Ok opaque_alpha8)
  with f d show ?thesis
    by (auto simp: p afterCreate_def)
qed


section \<open>The padding parser\<close>

lemma splitAcc_no_comma: "CHR '','' \<notin> set t \<Longrightarrow> splitAcc acc t = [rev acc @ t]"
  by (induction t arbitrary: acc) auto

lemma splitAcc_comma:
  "CHR '','' \<notin> set t \<Longrightarrow> splitAcc acc (t @ CHR '','' # rest) = (rev acc @ t) # splitAcc [] rest"
  by (induction t arbitrary: acc) auto

lemma splitAcc_not_Nil: "splitAcc acc s \<noteq> []"
  by (induction s arbitrary: acc) auto

lemma mkPadding_sel:
  "top (mkPadding t r b l) = t" "right (mkPadding t r b l) = r"
  "bottom (mkPadding t r b l) = b" "left (mkPadding t r b l) = l"
  by (simp_all add: mkPadding_def)

lemma Split_one: "CHR '','' \<notin> set t \<Longrightarrow> Split t = [t]"
  by (simp add: Split_def splitAcc_no_comma)

lemma Split_cons: "CHR '','' \<notin> set t \<Longrightarrow> Split (t @ CHR '','' # rest) = t # Split rest"
  by (simp add: Split_def splitAcc_comma)

lemma Atoi_Inr_nonempty: "Atoi t = Inr v \<Longrightarrow> t \<noteq> []"
  by (auto simp: Atoi_def ParseInt_def)

lemma parsePadding_empty: "parsePadding [] = Inr (mkPadding 0 0 0 0)"
  by (simp add: parsePadding_def)

lemma parsePadding_one:
  assumes "CHR '','' \<notin> set t" and "Atoi t = Inr v"
  shows "parsePadding t = Inr (mkPadding v v v v)"
  using assms Atoi_Inr_nonempty [OF assms(2)]
  by (simp add: parsePadding_def Split_one)

lemma parsePadding_two:
  assumes "CHR '','' \<notin> set t1" and "CHR '','' \<notin> set t2"
    and "Atoi t1 = Inr v1" and "Atoi t2 = Inr v2"
  shows "parsePadding (t1 @ '','' @ t2) = Inr (mkPadding v1 v2 v1 v2)"
  using assms by (simp add: parsePadding_def Split_cons Split_one)

lemma parsePadding_four:
  assumes "CHR '','' \<notin> set t1" and "CHR '','' \<notin> set t2"
    and "CHR '','' \<notin> set t3" and "CHR '','' \<notin> set t4"
    and "Atoi t1 = Inr v1" and "Atoi t2 = Inr v2" and "Atoi t3 = Inr v3" and "Atoi t4 = Inr v4"
  shows "parsePadding (t1 @ '','' @ t2 @ '','' @ t3 @ '','' @ t4) = Inr (mkPadding v1 v2 v3 v4)"
proof -
  have s: "Split (t1 @ '','' @ t2 @ '','' @ t3 @ '','' @ t4) = [t1, t2, t3, t4]"
    using assms(1-4) by (simp add: Split_cons Split_one)
  show ?thesis
    using s assms(5-8) by (simp add: parsePadding_def)
qed

lemma parsePadding_other:
  assumes "length (Split s) \<noteq> 1" and "length (Split s) \<noteq> 2" and "length (Split s) \<noteq> 4"
  shows "parsePadding s = Inl (Errorf ''invalid padding'')"
proof -
  have "s \<noteq> []" using assms(1) by (auto simp: Split_def)
  moreover have "Split s \<noteq> []"
    by (simp add: Split_def splitAcc_not_Nil)
  ultimately show ?thesis
    using assms by (simp add: parsePadding_def Let_def)
qed

lemma Atoi_samples:
  "Atoi ''5'' = Inr 5" "Atoi ''-5'' = Inr (- 5)" "Atoi ''+10'' = Inr 10"
  "Atoi ''1'' = Inr 1" "Atoi ''2'' = Inr 2" "Atoi ''3'' = Inr 3" "Atoi ''4'' = Inr 4"
  by (simp_all add: Atoi_def ParseInt_def digitVal_def)

text \<open>
  Claim C7.  The empty string gives \<open>(0, 0, 0, 0)\<close>.  One token that \<open>Atoi\<close> reads as
  \<open>v\<close> gives \<open>v\<close> on all four edges.  Two tokens \<open>v1,v2\<close> give top = bottom =
  \<open>v1\<close> and right = left = \<open>v2\<close>.  Four tokens give top, right, bottom, left in that
  order.  A string whose number of comma-separated pieces is not 1, 2 or 4 (3 or 5, say)
  gives the error \<open>invalid padding\<close>.  A token is a string without a comma.
\<close>

theorem padding_parser:
  "parsePadding [] = Inr (mkPadding 0 0 0 0) \<and>
   (\<forall>t v. CHR '','' \<notin> set t \<and> Atoi t = Inr v \<longrightarrow>
      parsePadding t = Inr (mkPadding v v v v)) \<and>
   (\<forall>t1 t2 v1 v2.
      CHR '','' \<notin> set t1 \<and> CHR '','' \<notin> set t2 \<and> Atoi t1 = Inr v1 \<and> Atoi t2 = Inr v2 \<longrightarrow>
      parsePadding (t1 @ '','' @ t2) = Inr (mkPadding v1 v2 v1 v2) \<and>
      top (mkPadding v1 v2 v1 v2) = v1 \<and> bottom (mkPadding v1 v2 v1 v2) = v1 \<and>
      right (mkPadding v1 v2 v1 v2) = v2 \<and> left (mkPadding v1 v2 v1 v2) = v2) \<and>
   (\<forall>t1 t2 t3 t4 v1 v2 v3 v4.
      CHR '','' \<notin> set t1 \<and> CHR '','' \<notin> set t2 \<and> CHR '','' \<notin> set t3 \<and> CHR '','' \<notin> set t4 \<and>
      Atoi t1 = Inr v1 \<and> Atoi t2 = Inr v2 \<and> Atoi t3 = Inr v3 \<and> Atoi t4 = Inr v4 \<longrightarrow>
      parsePadding (t1 @ '','' @ t2 @ '','' @ t3 @ '','' @ t4) = Inr (mkPadding v1 v2 v3 v4) \<and>
      top (mkPadding v1 v2 v3 v4) = v1 \<and> right (mkPadding v1 v2 v3 v4) = v2 \<and>
      bottom (mkPadding v1 v2 v3 v4) = v3 \<and> left (mkPadding v1 v2 v3 v4) = v4) \<and>
   (\<forall>s. length (Split s) \<noteq> 1 \<and> length (Split s) \<noteq> 2 \<and> length (Split s) \<noteq> 4 \<longrightarrow>
      parsePadding s = Inl (Errorf ''invalid padding''))"
  using parsePadding_two parsePadding_four
  by (simp add: parsePadding_empty parsePadding_one parsePadding_other mkPadding_sel)

text \<open>The theorem on one, two, four, three and five tokens.\<close>

theorem padding_parser_witness:
  "parsePadding ''5'' = Inr (mkPadding 5 5 5 5) \<and>
   parsePadding ''-5,+10'' = Inr (mkPadding (- 5) 10 (- 5) 10) \<and>
   parsePadding ''1,2,3,4'' = Inr (mkPadding 1 2 3 4) \<and>
   parsePadding ''1,2,3'' = Inl (Errorf ''invalid padding'') \<and>
   parsePadding ''1,2,3,4,5'' = Inl (Errorf ''invalid padding'')"
proof -
  note t = padding_parser
  from t have one: "CHR '','' \<notin> set ''5'' \<and> Atoi ''5'' = Inr 5 \<longrightarrow>
      parsePadding ''5'' = Inr (mkPadding 5 5 5 5)"
    by blast
  from t have two: "CHR '','' \<notin> set ''-5'' \<and> CHR '','' \<notin> set ''+10'' \<and>
      Atoi ''-5'' = Inr (- 5) \<and> Atoi ''+10'' = Inr 10 \<longrightarrow>
      parsePadding (''-5'' @ '','' @ ''+10'') = Inr (mkPadding (- 5) 10 (- 5) 10)"
    by blast
  from t have four: "CHR '','' \<notin> set ''1'' \<and> CHR '','' \<notin> set ''2'' \<and> CHR '','' \<notin> set ''3'' \<and>
      CHR '','' \<notin> set ''4'' \<and>
      Atoi ''1'' = Inr 1 \<and> Atoi ''2'' = Inr 2 \<and> Atoi ''3'' = Inr 3 \<and> Atoi ''4'' = Inr 4 \<longrightarrow>
      parsePadding (''1'' @ '','' @ ''2'' @ '','' @ ''3'' @ '','' @ ''4'') = Inr (mkPadding 1 2 3 4)"
    by blast
  from t have other: "\<And>s. length (Split s) \<noteq> 1 \<and> length (Split s) \<noteq> 2 \<and> length (Split s) \<noteq> 4 \<longrightarrow>
      parsePadding s = Inl (Errorf ''invalid padding'')"
    by blast
  have l3: "length (Split ''1,2,3'') = 3" and l5: "length (Split ''1,2,3,4,5'') = 5"
    by (simp_all add: Split_def)
  show ?thesis
    using one two four other [of "''1,2,3''"] other [of "''1,2,3,4,5''"]
    by (simp add: Atoi_samples l3 l5)
qed

section \<open>The color parser\<close>

lemma ToLower_lower_names:
  "ToLower ul ''red'' = ''red''" "ToLower ul ''green'' = ''green''"
  "ToLower ul ''blue'' = ''blue''" "ToLower ul ''black'' = ''black''"
  "ToLower ul ''white'' = ''white''"
  by (simp_all add: ToLower_def isASCII_def lowerByte_def)

lemma ToLower_RED: "ToLower ul ''RED'' = ''red''"
  by (simp add: ToLower_def isASCII_def lowerByte_def char_of_def bit_iff_odd_drop_bit)

lemma parseBackgroundColor_named:
  "ToLower ul s = ''black'' \<Longrightarrow> parseBackgroundColor ul s = Ok Black"
  "ToLower ul s = ''white'' \<Longrightarrow> parseBackgroundColor ul s = Ok White"
  "ToLower ul s = ''red'' \<Longrightarrow> parseBackgroundColor ul s = Ok (RGBA 255 0 0 0)"
  "ToLower ul s = ''green'' \<Longrightarrow> parseBackgroundColor ul s = Ok (RGBA 0 255 0 0)"
  "ToLower ul s = ''blue'' \<Longrightarrow> parseBackgroundColor ul s = Ok (RGBA 0 0 255 0)"
  by (simp_all add: parseBackgroundColor_def)

lemma named_channels:
  "colorRGBA Black = (0, 0, 0, 0xffff)"
  "colorRGBA White = (0xffff, 0xffff, 0xffff, 0xffff)"
  "colorRGBA (RGBA 255 0 0 0) = (0xffff, 0, 0, 0)"
  "colorRGBA (RGBA 0 255 0 0) = (0, 0xffff, 0, 0)"
  "colorRGBA (RGBA 0 0 255 0) = (0, 0, 0xffff, 0)"
  by (simp_all add: Black_def White_def widen8_def)

lemma opaque_Black_White: "opaque Black" "opaque White"
  by (simp_all add: opaque_def alphaOf_def Black_def White_def)

lemma RGBA_zero_alpha_not_opaque: "\<not> opaque (RGBA r g b 0)"
  by (simp add: opaque_def alphaOf_def widen8_def)

text \<open>
  Claim C1 does not hold of the code for \<open>red\<close>, \<open>green\<close> and \<open>blue\<close>.  The
  channels are the documented ones, but the literals \<open>color.RGBA{R: 255}\<close>,
  \<open>color.RGBA{G: 255}\<close> and \<open>color.RGBA{B: 255}\<close> leave the field \<open>A\<close> at zero:
  the alpha of the returned color is 0, fully transparent, where \<open>black\<close> and
  \<open>white\<close> are opaque.
\<close>

theorem named_colors_without_alpha:
  "parseBackgroundColor ul ''red'' = Ok (RGBA 255 0 0 0) \<and>
   parseBackgroundColor ul ''RED'' = Ok (RGBA 255 0 0 0) \<and>
   parseBackgroundColor ul ''green'' = Ok (RGBA 0 255 0 0) \<and>
   parseBackgroundColor ul ''blue'' = Ok (RGBA 0 0 255 0) \<and>
   colorRGBA (RGBA 255 0 0 0) = (0xffff, 0, 0, 0) \<and>
   alphaOf (RGBA 255 0 0 0) = 0 \<and>
   \<not> opaque (RGBA 255 0 0 0) \<and> \<not> opaque (RGBA 0 255 0 0) \<and> \<not> opaque (RGBA 0 0 255 0)"
  by (simp add: parseBackgroundColor_named ToLower_lower_names ToLower_RED
      RGBA_zero_alpha_not_opaque alphaOf_def widen8_def)

text \<open>
  The hexadecimal path: what it does with no, one, two and three matches, and the alpha of
  whatever color it returns.
\<close>

lemma parseHexColor_no_match:
  "FindAllString (TrimPrefixHash s) 3 = [] \<Longrightarrow> parseHexColor s = Panic ''index out of range''"
  by (simp add: parseHexColor_def index_def)

lemma parseHexColor_one_match:
  "FindAllString (TrimPrefixHash s) 3 = [t0] \<Longrightarrow> parseHexByte t0 = Inr r \<Longrightarrow>
   parseHexColor s = Panic ''index out of range''"
  by (simp add: parseHexColor_def index_def)

lemma parseHexColor_two_matches:
  "FindAllString (TrimPrefixHash s) 3 = [t0, t1] \<Longrightarrow> parseHexByte t0 = Inr r \<Longrightarrow>
   parseHexByte t1 = Inr g \<Longrightarrow> parseHexColor s = Panic ''index out of range''"
  by (simp add: parseHexColor_def index_def)

lemma parseHexColor_three_matches:
  "FindAllString (TrimPrefixHash s) 3 = [t0, t1, t2] \<Longrightarrow> parseHexByte t0 = Inr r \<Longrightarrow>
   parseHexByte t1 = Inr g \<Longrightarrow> parseHexByte t2 = Inr b \<Longrightarrow>
   parseHexColor s = Ok (RGBA r g b 0)"
  by (simp add: parseHexColor_def index_def)

lemma parseHexColor_Ok_alpha:
  "parseHexColor s = Ok c \<Longrightarrow> \<exists>r g b. c = RGBA r g b 0"
  by (auto simp: parseHexColor_def Let_def split: result.splits sum.splits)

lemma parseHexColor_never_opaque: "parseHexColor s = Ok c \<Longrightarrow> \<not> opaque c"
  by (auto dest!: parseHexColor_Ok_alpha simp: RGBA_zero_alpha_not_opaque)

lemma hexByte_samples:
  "parseHexByte ''ff'' = Inr 255" "parseHexByte ''00'' = Inr 0"
  "parseHexByte ''zz'' = Inl (NumError ''ParseInt'' ''zz'' ErrSyntax)"
  by (simp_all add: parseHexByte_def ParseInt_def digitVal_def)

lemma findAll_samples:
  "FindAllString (TrimPrefixHash ''#ff'') 3 = [''ff'']"
  "FindAllString (TrimPrefixHash ''#ff0000'') 3 = [''ff'', ''00'', ''00'']"
  "FindAllString (TrimPrefixHash '''') 3 = []"
  by (simp_all add: numeral_3_eq_3 isWord_def)

lemma hex_not_named:
  "parseBackgroundColor ul ''#ff'' = parseHexColor ''#ff''"
  "parseBackgroundColor ul ''#ff0000'' = parseHexColor ''#ff0000''"
  "parseBackgroundColor ul '''' = parseHexColor ''''"
  by (simp_all add: parseBackgroundColor_def ToLower_def isASCII_def lowerByte_def)

lemma parseHexColor_bad_token:
  assumes "FindAllString (TrimPrefixHash s) 3 = [t0, t1, t2]"
    and "parseHexByte t0 = Inl e \<or> parseHexByte t1 = Inl e \<or> parseHexByte t2 = Inl e"
  shows "\<exists>e'. parseHexColor s = Err e'"
proof (cases "parseHexByte t0")
  case (Inl e0)
  with assms(1) show ?thesis by (simp add: parseHexColor_def index_def)
next
  case r: (Inr r)
  show ?thesis
  proof (cases "parseHexByte t1")
    case (Inl e1)
    with assms(1) r show ?thesis by (simp add: parseHexColor_def index_def)
  next
    case g: (Inr g)
    show ?thesis
    proof (cases "parseHexByte t2")
      case (Inl e2)
      with assms(1) r g show ?thesis by (simp add: parseHexColor_def index_def)
    next
      case (Inr b)
      with assms(2) r g show ?thesis by simp
    qed
  qed
qed

text \<open>
  Claim C2 does not hold of the code.  With fewer than three matches, all of them valid,
  the parser does not return an error: it indexes the missing match and panics (\<open>#ff\<close>,
  and the empty string).  With three valid matches the color it returns has alpha 0, not
  a fully opaque one (\<open>#ff0000\<close>).
\<close>

theorem hex_color_panics_and_has_no_alpha:
  "parseBackgroundColor ul ''#ff'' = Panic ''index out of range'' \<and>
   parseBackgroundColor ul '''' = Panic ''index out of range'' \<and>
   parseBackgroundColor ul ''#ff0000'' = Ok (RGBA 255 0 0 0) \<and>
   alphaOf (RGBA 255 0 0 0) = 0 \<and>
   \<not> opaque (RGBA 255 0 0 0)"
  by (simp add: hex_not_named
      parseHexColor_one_match [OF findAll_samples(1) hexByte_samples(1)]
      parseHexColor_no_match [OF findAll_samples(3)]
      parseHexColor_three_matches [OF findAll_samples(2) hexByte_samples(1) hexByte_samples(2)
        hexByte_samples(2)]
      RGBA_zero_alpha_not_opaque alphaOf_def widen8_def)

end
